theory Spec2Isabelle
  imports Main
begin

section \<open>Python values\<close>

text \<open>
  The documents handled by hyperGRC are YAML files parsed by \<^verbatim>\<open>rtyaml.load\<close> into
  nested Python dictionaries, lists and scalars; the loaders add tuples (the sort keys).
  One datatype holds all of them.  A dictionary is an association list in insertion
  order, with string keys; strings are lists of characters with code points below 256.
  Floating point scalars are not modelled.
\<close>

datatype pyval =
    PNone
  | PBool bool
  | PInt int
  | PStr string
  | PList "pyval list"
  | PTuple "pyval list"
  | PDict "(string \<times> pyval) list"

datatype py_error =
    ValueError string pyval
  | KeyError string
  | TypeError
  | AttributeError
  | IndexError
  | FileNotFoundError string
  | Unmodelled

type_synonym pydict = "(string \<times> pyval) list"

section \<open>Character classes of the \<^verbatim>\<open>re\<close> module\<close>

definition code :: "char \<Rightarrow> nat" where
  "code c = of_char c"

text \<open>\<^verbatim>\<open>\d\<close>: the decimal digits; below code point 256 these are 0 to 9.\<close>

definition is_digit :: "char \<Rightarrow> bool" where
  "is_digit c = (48 \<le> code c \<and> code c \<le> 57)"

text \<open>\<^verbatim>\<open>\s\<close>, also the characters removed by \<^verbatim>\<open>str.strip()\<close>.\<close>

definition is_space :: "char \<Rightarrow> bool" where
  "is_space c = ((9 \<le> code c \<and> code c \<le> 13) \<or> (28 \<le> code c \<and> code c \<le> 32)
                 \<or> code c = 133 \<or> code c = 160)"

text \<open>\<^verbatim>\<open>\w\<close>: alphanumeric characters and the underscore.\<close>

definition is_word :: "char \<Rightarrow> bool" where
  "is_word c = (let n = code c in
     (48 \<le> n \<and> n \<le> 57) \<or> (65 \<le> n \<and> n \<le> 90) \<or> (97 \<le> n \<and> n \<le> 122) \<or> n = 95
     \<or> n = 170 \<or> n = 181 \<or> n = 186 \<or> n = 178 \<or> n = 179 \<or> n = 185
     \<or> (188 \<le> n \<and> n \<le> 190) \<or> (192 \<le> n \<and> n \<le> 214) \<or> (216 \<le> n \<and> n \<le> 246)
     \<or> (248 \<le> n \<and> n \<le> 255))"

section \<open>Natural sort keys (opencontrol.py, intify and make\_control\_number\_sort\_key)\<close>

text \<open>
  \<^verbatim>\<open>re.split(r"(\d+)", s)\<close>: the text before the first maximal run of digits, the run,
  the text between it and the next run, and so on, ending with the text after the last
  run.  The pieces between runs may be empty.
\<close>

function split_digits :: "string \<Rightarrow> string list" where
  "split_digits s =
     (let pre = takeWhile (\<lambda>c. \<not> is_digit c) s;
          rest = dropWhile (\<lambda>c. \<not> is_digit c) s
      in if rest = [] then [pre]
         else pre # takeWhile is_digit rest # split_digits (dropWhile is_digit rest))"
  by pat_completeness auto
termination
proof (relation "measure length", goal_cases)
  case 1
  show ?case by simp
next
  case (2 s pre rest)
  then have "rest \<noteq> []" and r: "rest = dropWhile (\<lambda>c. \<not> is_digit c) s"
    by simp_all
  then have "is_digit (hd rest)"
    using hd_dropWhile [of "\<lambda>c. \<not> is_digit c" s] by simp
  with \<open>rest \<noteq> []\<close> have "length (dropWhile is_digit rest) < length rest"
    by (cases rest) (simp_all add: le_imp_less_Suc length_dropWhile_le)
  moreover have "length rest \<le> length s"
    unfolding r by (rule length_dropWhile_le)
  ultimately show ?case by simp
qed

declare split_digits.simps [simp del]

text \<open>
  \<^verbatim>\<open>int(s)\<close> on a string: surrounding whitespace is dropped, one sign is allowed, and
  the rest must be decimal digits, where single underscores may stand between digits.
  The whitespace of \<^verbatim>\<open>int\<close> is that of \<^verbatim>\<open>\s\<close> without the four separators 0x1C to
  0x1F.  A text of more than 4300 digits is refused: this is the default limit of
  \<^verbatim>\<open>sys.set_int_max_str_digits\<close>, which Python has since 3.11 (and since the security
  releases 3.7.14, 3.8.14, 3.9.14 and 3.10.7).  Whatever is refused raises ValueError,
  here \<open>None\<close>.
\<close>

definition digit_val :: "char \<Rightarrow> int" where
  "digit_val c = int (code c) - 48"

definition dec_val :: "string \<Rightarrow> int" where
  "dec_val ds = foldl (\<lambda>a c. 10 * a + digit_val c) 0 ds"

fun digits_ok :: "string \<Rightarrow> bool" where
  "digits_ok [] = False"
| "digits_ok [c] = is_digit c"
| "digits_ok (c # d # cs) =
     (is_digit c \<and> (if d = CHR ''_'' then digits_ok cs else digits_ok (d # cs)))"

definition is_int_space :: "char \<Rightarrow> bool" where
  "is_int_space c = ((9 \<le> code c \<and> code c \<le> 13) \<or> code c = 32 \<or> code c = 133 \<or> code c = 160)"

definition int_strip :: "string \<Rightarrow> string" where
  "int_strip s = rev (dropWhile is_int_space (rev (dropWhile is_int_space s)))"

definition max_str_digits :: nat where
  "max_str_digits = 4300"

definition py_int :: "string \<Rightarrow> int option" where
  "py_int s =
     (let t = int_strip s;
          (sgn, body) = (case t of
                           [] \<Rightarrow> (1, [])
                         | c # cs \<Rightarrow> if c = CHR ''+'' then (1, cs)
                                    else if c = CHR ''-'' then (- 1, cs)
                                    else (1, t));
          digits = filter (\<lambda>c. c \<noteq> CHR ''_'') body
      in if digits_ok body \<and> length digits \<le> max_str_digits then Some (sgn * dec_val digits)
         else None)"

definition intify :: "string \<Rightarrow> pyval" where
  "intify s = (case py_int s of Some n \<Rightarrow> PInt n | None \<Rightarrow> PStr s)"

text \<open>The argument is a string or \<^verbatim>\<open>None\<close>; \<^verbatim>\<open>s or ""\<close> turns \<^verbatim>\<open>None\<close> into the empty string.\<close>

definition make_control_number_sort_key :: "string option \<Rightarrow> pyval list" where
  "make_control_number_sort_key s =
     map intify (split_digits (case s of None \<Rightarrow> [] | Some t \<Rightarrow> t))"

section \<open>Comparison of Python values\<close>

definition py_num :: "pyval \<Rightarrow> int option" where
  "py_num v = (case v of PInt i \<Rightarrow> Some i | PBool b \<Rightarrow> Some (if b then 1 else 0) | _ \<Rightarrow> None)"

text \<open>\<^verbatim>\<open>==\<close>: never raises; a boolean equals the integer 0 or 1; dictionaries compare
  without regard to order.\<close>

fun py_eq :: "pyval \<Rightarrow> pyval \<Rightarrow> bool"
  and py_eq_list :: "pyval list \<Rightarrow> pyval list \<Rightarrow> bool"
  and py_eq_items :: "pydict \<Rightarrow> pydict \<Rightarrow> bool" where
  "py_eq PNone w = (w = PNone)"
| "py_eq (PBool b) w = (py_num w = Some (if b then 1 else 0))"
| "py_eq (PInt i) w = (py_num w = Some i)"
| "py_eq (PStr s) w = (w = PStr s)"
| "py_eq (PList xs) w = (case w of PList ys \<Rightarrow> py_eq_list xs ys | _ \<Rightarrow> False)"
| "py_eq (PTuple xs) w = (case w of PTuple ys \<Rightarrow> py_eq_list xs ys | _ \<Rightarrow> False)"
| "py_eq (PDict m) w =
     (case w of PDict n \<Rightarrow> length m = length n \<and> py_eq_items m n | _ \<Rightarrow> False)"
| "py_eq_list [] ys = (ys = [])"
| "py_eq_list (x # xs) ys = (case ys of [] \<Rightarrow> False | y # ys' \<Rightarrow> py_eq x y \<and> py_eq_list xs ys')"
| "py_eq_items [] n = True"
| "py_eq_items (kv # m) n =
     (case map_of n (fst kv) of None \<Rightarrow> False | Some w \<Rightarrow> py_eq (snd kv) w \<and> py_eq_items m n)"

text \<open>Strings are ordered by code point, the shorter of two that agree first.\<close>

fun str_lt :: "string \<Rightarrow> string \<Rightarrow> bool" where
  "str_lt [] [] = False"
| "str_lt [] (d # ds) = True"
| "str_lt (c # cs) [] = False"
| "str_lt (c # cs) (d # ds) = (if c = d then str_lt cs ds else code c < code d)"

text \<open>
  \<^verbatim>\<open><\<close>: numbers with numbers, strings with strings, and sequences of one kind item
  by item: the first pair of items that are not equal decides, and if there is none the
  shorter sequence is the smaller.  Every other pair of kinds raises TypeError.
\<close>

fun py_lt :: "pyval \<Rightarrow> pyval \<Rightarrow> py_error + bool"
  and py_lt_list :: "pyval list \<Rightarrow> pyval list \<Rightarrow> py_error + bool" where
  "py_lt (PBool a) w = (case py_num w of Some j \<Rightarrow> Inr ((if a then 1 else 0) < j) | None \<Rightarrow> Inl TypeError)"
| "py_lt (PInt i) w = (case py_num w of Some j \<Rightarrow> Inr (i < j) | None \<Rightarrow> Inl TypeError)"
| "py_lt (PStr s) w = (case w of PStr t \<Rightarrow> Inr (str_lt s t) | _ \<Rightarrow> Inl TypeError)"
| "py_lt (PList xs) w = (case w of PList ys \<Rightarrow> py_lt_list xs ys | _ \<Rightarrow> Inl TypeError)"
| "py_lt (PTuple xs) w = (case w of PTuple ys \<Rightarrow> py_lt_list xs ys | _ \<Rightarrow> Inl TypeError)"
| "py_lt PNone w = Inl TypeError"
| "py_lt (PDict m) w = Inl TypeError"
| "py_lt_list [] ys = Inr (ys \<noteq> [])"
| "py_lt_list (x # xs) ys =
     (case ys of [] \<Rightarrow> Inr False
      | y # ys' \<Rightarrow> if py_eq x y then py_lt_list xs ys' else py_lt x y)"

text \<open>The kinds of the items of a sort key, and the two shapes used to describe a key:
  the pieces of a split alternate between text without digits and non-empty runs of
  digits, and the items of a key alternate between strings and integers.\<close>

definition is_str :: "pyval \<Rightarrow> bool" where
  "is_str v = (case v of PStr _ \<Rightarrow> True | _ \<Rightarrow> False)"

definition is_int :: "pyval \<Rightarrow> bool" where
  "is_int v = (case v of PInt _ \<Rightarrow> True | _ \<Rightarrow> False)"

fun alternating :: "string list \<Rightarrow> bool" where
  "alternating [] = False"
| "alternating [p] = list_all (\<lambda>c. \<not> is_digit c) p"
| "alternating (p # d # rest) =
     (list_all (\<lambda>c. \<not> is_digit c) p \<and> d \<noteq> [] \<and> list_all is_digit d \<and> alternating rest)"

fun shaped :: "bool \<Rightarrow> pyval list \<Rightarrow> bool" where
  "shaped b [] = True"
| "shaped b (x # xs) = ((if b then is_str x else is_int x) \<and> shaped (\<not> b) xs)"


text \<open>The runs of digits among the pieces of a split, which stand at the odd positions,
  and the strings all of whose runs of digits \<^verbatim>\<open>int\<close> accepts.\<close>

fun digit_runs :: "string list \<Rightarrow> string list" where
  "digit_runs (p # d # rest) = d # digit_runs rest"
| "digit_runs ps = []"

definition runs_within_limit :: "string option \<Rightarrow> bool" where
  "runs_within_limit s =
     list_all (\<lambda>d. length d \<le> max_str_digits)
       (digit_runs (split_digits (case s of None \<Rightarrow> [] | Some t \<Rightarrow> t)))"
section \<open>Operations on dictionaries and sequences\<close>

text \<open>An exception ends the computation: \<open>andthen\<close> passes a value on and an error through.\<close>

definition andthen :: "py_error + 'a \<Rightarrow> ('a \<Rightarrow> py_error + 'b) \<Rightarrow> py_error + 'b" where
  "andthen m f = (case m of Inl e \<Rightarrow> Inl e | Inr x \<Rightarrow> f x)"

text \<open>\<^verbatim>\<open>v[k]\<close> with a string \<open>k\<close>: KeyError on a dictionary without the key, TypeError on
  everything that is not a dictionary.\<close>

fun py_getitem :: "pyval \<Rightarrow> string \<Rightarrow> py_error + pyval" where
  "py_getitem (PDict m) k = (case map_of m k of None \<Rightarrow> Inl (KeyError k) | Some v \<Rightarrow> Inr v)"
| "py_getitem v k = Inl TypeError"

text \<open>\<^verbatim>\<open>v.get(k, d)\<close>: only dictionaries have the method.\<close>

fun py_get :: "pyval \<Rightarrow> string \<Rightarrow> pyval \<Rightarrow> py_error + pyval" where
  "py_get (PDict m) k d = Inr (case map_of m k of None \<Rightarrow> d | Some v \<Rightarrow> v)"
| "py_get v k d = Inl AttributeError"

text \<open>\<^verbatim>\<open>d[k] = v\<close>: an existing key keeps its place, a new key goes to the end.\<close>

fun dict_set :: "pydict \<Rightarrow> string \<Rightarrow> pyval \<Rightarrow> pydict" where
  "dict_set [] k v = [(k, v)]"
| "dict_set (p # ps) k v = (if fst p = k then (k, v) # ps else p # dict_set ps k v)"

fun py_setitem :: "pyval \<Rightarrow> string \<Rightarrow> pyval \<Rightarrow> py_error + pyval" where
  "py_setitem (PDict m) k v = Inr (PDict (dict_set m k v))"
| "py_setitem w k v = Inl TypeError"

text \<open>The items a \<^verbatim>\<open>for\<close> loop visits: the items of a list or tuple, the keys of a
  dictionary, the characters of a string; nothing else can be iterated.\<close>

fun py_iter :: "pyval \<Rightarrow> py_error + pyval list" where
  "py_iter (PList xs) = Inr xs"
| "py_iter (PTuple xs) = Inr xs"
| "py_iter (PDict m) = Inr (map (\<lambda>kv. PStr (fst kv)) m)"
| "py_iter (PStr s) = Inr (map (\<lambda>c. PStr [c]) s)"
| "py_iter v = Inl TypeError"

text \<open>
  The updater changes dictionaries in place while it walks the document, and the
  containers that hold them see the change.  In the model a loop returns the new states
  of the items it visited, \<open>with_items\<close> puts them back into the list (or tuple) that
  was iterated, and \<open>replace_value\<close> puts that container back under the key it was
  read from.  A container read as the default of \<^verbatim>\<open>get\<close> is under no key and is not put
  back.  The documents are trees: no YAML alias makes two places share one object.
\<close>

definition with_items :: "pyval \<Rightarrow> pyval list \<Rightarrow> pyval" where
  "with_items container items =
     (case container of PList _ \<Rightarrow> PList items | PTuple _ \<Rightarrow> PTuple items | _ \<Rightarrow> container)"

definition replace_value :: "pyval \<Rightarrow> string \<Rightarrow> pyval \<Rightarrow> pyval" where
  "replace_value d k v =
     (case d of PDict m \<Rightarrow> (if map_of m k = None then d else PDict (dict_set m k v)) | _ \<Rightarrow> d)"

section \<open>The updater (opencontrol.py, update\_component\_control)\<close>

text \<open>The inner loop, over the narrative parts of one matching control.\<close>

fun update_parts :: "pyval \<Rightarrow> pyval list \<Rightarrow> py_error + pyval list" where
  "update_parts controlimpl [] = Inr []"
| "update_parts controlimpl (narrative_part # rest) =
     andthen (py_get narrative_part ''key'' PNone) (\<lambda>key.
     andthen (py_get controlimpl ''control_part'' PNone) (\<lambda>control_part.
     andthen (if py_eq key control_part
              then andthen (py_getitem controlimpl ''narrative'') (\<lambda>text.
                   py_setitem narrative_part ''text'' text)
              else Inr narrative_part) (\<lambda>narrative_part'.
     andthen (update_parts controlimpl rest) (\<lambda>rest'.
     Inr (narrative_part' # rest')))))"

text \<open>The test of the outer loop; \<^verbatim>\<open>and\<close> evaluates its right side only if the left
  side is true.\<close>

definition control_matches :: "pyval \<Rightarrow> pyval \<Rightarrow> py_error + bool" where
  "control_matches controlimpl control =
     andthen (py_getitem control ''standard_key'') (\<lambda>standard_key.
     andthen (andthen (py_getitem controlimpl ''standard'') (\<lambda>s. py_getitem s ''id'')) (\<lambda>standard_id.
     if py_eq standard_key standard_id
     then andthen (py_getitem control ''control_key'') (\<lambda>control_key.
          andthen (andthen (py_getitem controlimpl ''control'') (\<lambda>c. py_getitem c ''id'')) (\<lambda>control_id.
          Inr (py_eq control_key control_id)))
     else Inr False))"

fun update_controls :: "pyval \<Rightarrow> pyval list \<Rightarrow> py_error + pyval list" where
  "update_controls controlimpl [] = Inr []"
| "update_controls controlimpl (control # rest) =
     andthen (control_matches controlimpl control) (\<lambda>found.
     andthen (if found
              then andthen (py_get control ''narrative'' (PList [])) (\<lambda>narrative.
                   andthen (py_iter narrative) (\<lambda>parts.
                   andthen (update_parts controlimpl parts) (\<lambda>parts'.
                   Inr (replace_value control ''narrative'' (with_items narrative parts')))))
              else Inr control) (\<lambda>control'.
     andthen (update_controls controlimpl rest) (\<lambda>rest'.
     Inr (control' # rest'))))"

text \<open>What happens to the parsed content of the file between \<^verbatim>\<open>rtyaml.load\<close> and
  \<^verbatim>\<open>rtyaml.dump\<close>.\<close>

definition update_document :: "pyval \<Rightarrow> pyval \<Rightarrow> py_error + pyval" where
  "update_document controlimpl data =
     andthen (py_getitem data ''satisfies'') (\<lambda>satisfies.
     andthen (py_iter satisfies) (\<lambda>controls.
     andthen (update_controls controlimpl controls) (\<lambda>controls'.
     Inr (replace_value data ''satisfies'' (with_items satisfies controls')))))"

text \<open>
  The files are a map from paths to the documents they hold: a file is modelled by what
  \<^verbatim>\<open>rtyaml.load\<close> reads from it, and \<^verbatim>\<open>rtyaml.dump\<close> stores a document.  The function
  has no \<^verbatim>\<open>return\<close> statement, so a call that does not raise returns \<^verbatim>\<open>None\<close>; the
  result here is that value and the files after the call.  When an exception is raised
  the file has not been written.
\<close>

type_synonym files = "string \<Rightarrow> pyval option"

definition update_component_control :: "files \<Rightarrow> pyval \<Rightarrow> py_error + (pyval \<times> files)" where
  "update_component_control fs controlimpl =
     andthen (py_getitem controlimpl ''source_file'') (\<lambda>source_file.
     case source_file of
       PStr path \<Rightarrow>
         (case fs path of
            None \<Rightarrow> Inl (FileNotFoundError path)
          | Some data \<Rightarrow>
              andthen (update_document controlimpl data) (\<lambda>data'.
              Inr (PNone, fs(path \<mapsto> data'))))
     | _ \<Rightarrow> Inl TypeError)"

section \<open>Cleaning of submitted text (routes.py, update\_control.clean\_text)\<close>

text \<open>
  \<^verbatim>\<open>re.sub(r"\s+\n", "\n", text)\<close>.  A match starts at a whitespace character, takes
  the whole run of whitespace that follows and gives characters back until the last one
  is a line feed; so a match is a run of whitespace up to its last line feed, if that is
  not the character the match started at.  It is replaced by one line feed, and the
  search goes on behind it.
\<close>

text \<open>\<^verbatim>\<open>text.strip()\<close>.\<close>

definition strip :: "string \<Rightarrow> string" where
  "strip s = rev (dropWhile is_space (rev (dropWhile is_space s)))"

text \<open>The position of the last line feed of a text.\<close>

fun last_newline :: "string \<Rightarrow> nat option" where
  "last_newline [] = None"
| "last_newline (c # cs) =
     (case last_newline cs of
        Some k \<Rightarrow> Some (Suc k)
      | None \<Rightarrow> if c = CHR 0x0A then Some 0 else None)"

function sub_space_newline :: "string \<Rightarrow> string" where
  "sub_space_newline s =
     (case s of
        [] \<Rightarrow> []
      | c # cs \<Rightarrow>
          (case last_newline (takeWhile is_space s) of
             None \<Rightarrow> c # sub_space_newline cs
           | Some k \<Rightarrow> if k = 0 then c # sub_space_newline cs
                       else CHR 0x0A # sub_space_newline (drop (Suc k) s)))"
  by pat_completeness auto
termination
  by (relation "measure length") auto

declare sub_space_newline.simps [simp del]

definition clean_text :: "string \<Rightarrow> pyval" where
  "clean_text text =
     (let text1 = strip text;
          text2 = sub_space_newline text1
      in if text2 = [] then PNone else PStr text2)"

section \<open>Reading a component document\<close>








section \<open>An example component\<close>

text \<open>A component file with two controls: AC-2 with narrative parts keyed "a" and "b", AC-3
  with two parts without keys.  The four narrative texts are parameters.\<close>

definition example_ac2 :: "pyval \<Rightarrow> pyval \<Rightarrow> pyval" where
  "example_ac2 text1 text2 = PDict
     [(''standard_key'', PStr ''NIST-800-53''),
      (''control_key'', PStr ''AC-2''),
      (''name'', PStr ''Account Management''),
      (''narrative'', PList
         [PDict [(''key'', PStr ''a''), (''text'', text1)],
          PDict [(''key'', PStr ''b''), (''text'', text2)]])]"

definition example_ac3 :: "pyval \<Rightarrow> pyval \<Rightarrow> pyval" where
  "example_ac3 text3 text4 = PDict
     [(''standard_key'', PStr ''NIST-800-53''),
      (''control_key'', PStr ''AC-3''),
      (''name'', PStr ''Access Enforcement''),
      (''narrative'', PList
         [PDict [(''text'', text3)],
          PDict [(''text'', text4)]])]"

definition example_component_with :: "pyval \<Rightarrow> pyval \<Rightarrow> pyval \<Rightarrow> pyval \<Rightarrow> pyval" where
  "example_component_with text1 text2 text3 text4 = PDict
     [(''schema_version'', PStr ''3.0.0''),
      (''name'', PStr ''Web Server''),
      (''satisfies'', PList [example_ac2 text1 text2, example_ac3 text3 text4])]"

definition example_component :: pyval where
  "example_component =
     example_component_with (PStr ''Accounts are reviewed.'') (PStr ''Accounts expire.'')
       (PStr ''Roles are enforced.'') (PStr ''Defaults deny.'')"

text \<open>A control implementation record for that file, as \<open>load_project_component_controls\<close>
  makes it (the fields the updater reads), with the narrative to store.\<close>

definition example_controlimpl :: "string \<Rightarrow> pyval \<Rightarrow> string \<Rightarrow> pyval" where
  "example_controlimpl control_key control_part narrative = PDict
     [(''standard'', PDict [(''id'', PStr ''NIST-800-53''), (''name'', PStr ''NIST-800-53'')]),
      (''control'', PDict [(''id'', PStr control_key), (''number'', PStr control_key)]),
      (''source_file'', PStr ''web/component.yaml''),
      (''control_part'', control_part),
      (''narrative'', PStr narrative)]"

definition example_files :: files where
  "example_files = [''web/component.yaml'' \<mapsto> example_component]"

section \<open>The control resolver (routes.py, get\_contol)\<close>

text \<open>
  \<^verbatim>\<open>re.split(r"(\s+|[^\w\s]+)", control_id)\<close>: a separator is a maximal run of whitespace
  or a maximal run of characters that are neither word characters nor whitespace; the
  result is the text before the first separator, the separator, the text up to the next
  one, and so on, ending with the text after the last separator.  Texts may be empty.
\<close>

function split_parts :: "string \<Rightarrow> string list" where
  "split_parts s =
     (let pre = takeWhile is_word s;
          rest = dropWhile is_word s
      in if rest = [] then [pre]
         else let sep = (if is_space (hd rest) then takeWhile is_space rest
                         else takeWhile (\<lambda>c. \<not> is_word c \<and> \<not> is_space c) rest)
              in pre # sep # split_parts (drop (length sep) rest))"
  by pat_completeness auto
termination
proof (relation "measure length", goal_cases)
  case 1
  show ?case by simp
next
  case (2 s pre rest sep)
  then have ne: "rest \<noteq> []" and r: "rest = dropWhile is_word s"
    and sep: "sep = (if is_space (hd rest) then takeWhile is_space rest
                     else takeWhile (\<lambda>c. \<not> is_word c \<and> \<not> is_space c) rest)"
    by simp_all
  from ne r have "\<not> is_word (hd rest)"
    using hd_dropWhile [of is_word s] by simp
  with ne sep have "sep \<noteq> []" by (cases rest) auto
  then have "0 < length sep" by simp
  moreover have "length rest \<le> length s"
    unfolding r by (rule length_dropWhile_le)
  moreover have "0 < length rest" using ne by simp
  ultimately have "length rest - length sep < length s" by arith
  then show ?case by simp
qed

declare split_parts.simps [simp del]

text \<open>\<^verbatim>\<open>v + t\<close> for a string \<open>t\<close>: only a string can be added to.\<close>

fun py_add_str :: "pyval \<Rightarrow> string \<Rightarrow> py_error + pyval" where
  "py_add_str (PStr s) t = Inr (PStr (s @ t))"
| "py_add_str v t = Inl TypeError"

text \<open>The dictionary returned for the prefix \<open>test_id\<close> found in the standard, with
  \<open>id_remainder\<close> the rest of the control id.\<close>

definition found_control :: "pydict \<Rightarrow> string \<Rightarrow> string \<Rightarrow> string \<Rightarrow> py_error + pyval" where
  "found_control standard control_id test_id id_remainder =
     andthen (py_getitem (PDict standard) test_id) (\<lambda>entry.
     andthen (py_getitem entry ''name'') (\<lambda>entry_name.
     andthen (py_add_str entry_name (if id_remainder = [] then [] else '' '' @ id_remainder)) (\<lambda>name.
     andthen (if id_remainder = [] then py_getitem entry ''description''
              else Inr (PStr (''See '' @ test_id @ '', '' @ id_remainder @ ''.''))) (\<lambda>description.
     Inr (PDict [(''id'', PStr (control_id @ (if id_remainder = [] then [] else id_remainder))),
                 (''name'', name),
                 (''description'', description)])))))"

text \<open>The loop \<^verbatim>\<open>for i in reversed(range(len(control_parts)))\<close>: \<open>backoff \<dots> n\<close> runs the
  iterations for \<open>i = n - 1\<close> down to \<open>0\<close> and then returns the dummy data.\<close>

fun backoff :: "pydict \<Rightarrow> string \<Rightarrow> string list \<Rightarrow> nat \<Rightarrow> py_error + pyval" where
  "backoff standard control_id control_parts 0 =
     Inr (PDict [(''id'', PStr control_id),
                 (''name'', PStr (''['' @ control_id @ '']'')),
                 (''description'', PNone)])"
| "backoff standard control_id control_parts (Suc i) =
     (let test_id = concat (take (Suc i) control_parts);
          id_remainder = concat (drop (Suc i) control_parts)
      in if map_of standard test_id \<noteq> None
         then found_control standard control_id test_id id_remainder
         else backoff standard control_id control_parts i)"

definition get_contol :: "pydict \<Rightarrow> string \<Rightarrow> py_error + pyval" where
  "get_contol standard control_id =
     (let control_parts = split_parts control_id
      in backoff standard control_id control_parts (length control_parts))"

text \<open>The catalog of the resolver example: one control, AC-2.\<close>

definition example_standard :: pydict where
  "example_standard =
     [(''AC-2'', PDict [(''name'', PStr ''Account Management''),
                        (''description'', PStr ''The organization manages accounts.'')])]"

section \<open>Library functions used by the loaders\<close>

text \<open>Truth of a value in \<^verbatim>\<open>x or y\<close> and \<^verbatim>\<open>not x\<close>.\<close>

fun truthy :: "pyval \<Rightarrow> bool" where
  "truthy PNone = False"
| "truthy (PBool b) = b"
| "truthy (PInt i) = (i \<noteq> 0)"
| "truthy (PStr s) = (s \<noteq> [])"
| "truthy (PList xs) = (xs \<noteq> [])"
| "truthy (PTuple xs) = (xs \<noteq> [])"
| "truthy (PDict m) = (m \<noteq> [])"

text \<open>What can be a key of a dictionary: everything but a list, a dictionary, and a tuple
  that holds one.\<close>

fun hashable :: "pyval \<Rightarrow> bool"
  and hashable_all :: "pyval list \<Rightarrow> bool" where
  "hashable (PList xs) = False"
| "hashable (PDict m) = False"
| "hashable (PTuple xs) = hashable_all xs"
| "hashable v = True"
| "hashable_all [] = True"
| "hashable_all (x # xs) = (hashable x \<and> hashable_all xs)"







text \<open>\<^verbatim>\<open>posixpath.join\<close>, one component at a time.\<close>

definition path_join :: "string \<Rightarrow> string \<Rightarrow> string" where
  "path_join a b =
     (if b \<noteq> [] \<and> hd b = CHR ''/'' then b
      else if a = [] \<or> last a = CHR ''/'' then a @ b
      else a @ ''/'' @ b)"

text \<open>\<^verbatim>\<open>s.split(sep)\<close> for a separator of one character: always at least one piece.\<close>

fun split_char :: "char \<Rightarrow> string \<Rightarrow> string list" where
  "split_char sep [] = [Nil]"
| "split_char sep (c # cs) =
     (if c = sep then [] # split_char sep cs
      else (case split_char sep cs of [] \<Rightarrow> [c] # Nil | p # ps \<Rightarrow> (c # p) # ps))"

fun join_with :: "string \<Rightarrow> string list \<Rightarrow> string" where
  "join_with sep [] = []"
| "join_with sep [p] = p"
| "join_with sep (p # q # ps) = p @ sep @ join_with sep (q # ps)"

text \<open>\<^verbatim>\<open>posixpath.normpath\<close>.\<close>

definition initial_slashes :: "string \<Rightarrow> nat" where
  "initial_slashes path =
     (if take 1 path = ''/'' then (if take 2 path = ''//'' \<and> take 3 path \<noteq> ''///'' then 2 else 1)
      else 0)"

definition normpath_step :: "nat \<Rightarrow> string list \<Rightarrow> string \<Rightarrow> string list" where
  "normpath_step slashes new_comps part =
     (if part = [] \<or> part = ''.'' then new_comps
      else if part \<noteq> ''..'' \<or> (slashes = 0 \<and> new_comps = [])
              \<or> (new_comps \<noteq> [] \<and> last new_comps = ''..'')
           then new_comps @ [part]
      else if new_comps \<noteq> [] then butlast new_comps
      else new_comps)"

definition normpath :: "string \<Rightarrow> string" where
  "normpath path =
     (if path = [] then ''.''
      else let slashes = initial_slashes path;
               comps = foldl (normpath_step slashes) [] (split_char (CHR ''/'') path);
               joined = replicate slashes (CHR ''/'') @ join_with ''/'' comps
           in if joined = [] then ''.'' else joined)"

text \<open>\<^verbatim>\<open>posixpath.basename\<close>: what follows the last slash.\<close>

definition basename :: "string \<Rightarrow> string" where
  "basename p = last (split_char (CHR ''/'') p)"

text \<open>The first component of \<^verbatim>\<open>posixpath.splitext\<close>: the path without its extension.  The
  extension starts at the last dot of the base name, unless only dots come before it.\<close>

definition splitext_root :: "string \<Rightarrow> string" where
  "splitext_root p =
     (let base = basename p;
          stem = rev (drop 1 (dropWhile (\<lambda>c. c \<noteq> CHR ''.'') (rev base)))
      in if CHR ''.'' \<in> set base \<and> list_ex (\<lambda>c. c \<noteq> CHR ''.'') stem
         then take (length p - length base) p @ stem
         else p)"

text \<open>\<^verbatim>\<open>urllib.parse.quote_plus\<close> on a string: letters, digits and \<^verbatim>\<open>_.-~\<close> stay, a space
  becomes a plus sign, every other character becomes the bytes of its UTF-8 encoding,
  each written as a percent sign and two hexadecimal digits.\<close>

definition is_ascii_alnum :: "char \<Rightarrow> bool" where
  "is_ascii_alnum c = (let n = code c in
     (48 \<le> n \<and> n \<le> 57) \<or> (65 \<le> n \<and> n \<le> 90) \<or> (97 \<le> n \<and> n \<le> 122))"

definition hex_upper :: "nat \<Rightarrow> char" where
  "hex_upper d = ''0123456789ABCDEF'' ! (d mod 16)"

definition percent_byte :: "nat \<Rightarrow> string" where
  "percent_byte b = [CHR ''%'', hex_upper (b div 16), hex_upper b]"

definition quote_char :: "char \<Rightarrow> string" where
  "quote_char c =
     (if is_ascii_alnum c \<or> c \<in> set ''_.-~'' then [c]
      else if c = CHR '' '' then ''+''
      else if code c < 128 then percent_byte (code c)
      else percent_byte (192 + code c div 64) @ percent_byte (128 + code c mod 64))"

definition quote_plus :: "string \<Rightarrow> string" where
  "quote_plus s = concat (map quote_char s)"


section \<open>Identifiers (opencontrol.py, short\_hash)\<close>

text \<open>
  \<^verbatim>\<open>hashlib.sha256\<close> is a parameter of the model: \<open>hexdigest s\<close> stands for
  \<^verbatim>\<open>hashlib.sha256(s.encode("utf8")).hexdigest()\<close>, a string of 64 hexadecimal digits.
  \<open>short_hash\<close> is called with the default length 6 only.
\<close>

definition short_hash :: "(string \<Rightarrow> string) \<Rightarrow> string \<Rightarrow> string" where
  "short_hash hexdigest s = take 6 (hexdigest s)"

text \<open>The argument of \<open>short_hash\<close> must have the method \<^verbatim>\<open>encode\<close>: a string.\<close>

fun py_short_hash :: "(string \<Rightarrow> string) \<Rightarrow> pyval \<Rightarrow> py_error + string" where
  "py_short_hash hexdigest (PStr s) = Inr (short_hash hexdigest s)"
| "py_short_hash hexdigest v = Inl AttributeError"

text \<open>\<^verbatim>\<open>name[0:12] + "-" + h\<close>: the slice and the sum need a string.\<close>

fun first12_dash :: "pyval \<Rightarrow> py_error + string" where
  "first12_dash (PStr name) = Inr (take 12 name @ ''-'')"
| "first12_dash v = Inl TypeError"

definition is_hex_digit :: "char \<Rightarrow> bool" where
  "is_hex_digit c = (c \<in> set ''0123456789abcdef'')"

definition is_hexdigest :: "(string \<Rightarrow> string) \<Rightarrow> bool" where
  "is_hexdigest hexdigest = (\<forall>s. length (hexdigest s) = 64 \<and> list_all is_hex_digit (hexdigest s))"

text \<open>Letters, digits and the separator of the identifiers.\<close>

definition url_safe :: "string \<Rightarrow> bool" where
  "url_safe s = list_all (\<lambda>c. is_ascii_alnum c \<or> c = CHR ''-'') s"

section \<open>The project loader (opencontrol.py, load\_project\_from\_path)\<close>

text \<open>The schema gate of every loader: the file must exist, hold a dictionary, and carry
  the expected \<^verbatim>\<open>schema_version\<close>.\<close>

definition read_versioned :: "files \<Rightarrow> string \<Rightarrow> string \<Rightarrow> py_error + pyval" where
  "read_versioned fs fn version =
     (case fs fn of
        None \<Rightarrow> Inl (FileNotFoundError fn)
      | Some doc \<Rightarrow>
          andthen (py_get doc ''schema_version'' PNone) (\<lambda>schema_version.
          if \<not> py_eq schema_version (PStr version) then Inl (ValueError fn schema_version)
          else Inr doc))"

definition dir_name :: "string \<Rightarrow> string" where
  "dir_name dir = splitext_root (basename (normpath dir))"

definition load_project_from_path :: "(string \<Rightarrow> string) \<Rightarrow> files \<Rightarrow> string \<Rightarrow> py_error + pyval" where
  "load_project_from_path hexdigest fs project_dir =
     (let fn = path_join project_dir ''opencontrol.yaml'' in
      andthen (read_versioned fs fn ''1.0.0'') (\<lambda>opencontrol.
      andthen (py_get opencontrol ''name'' PNone) (\<lambda>name0.
      let name = (if truthy name0 then name0 else PStr (dir_name project_dir)) in
      andthen (andthen (py_get opencontrol ''metadata'' (PDict [])) (\<lambda>m.
               py_get m ''description'' PNone)) (\<lambda>description.
      andthen (andthen (py_get opencontrol ''metadata'' (PDict [])) (\<lambda>m.
               andthen (py_get m ''organization'' (PDict [])) (\<lambda>org.
               py_get org ''name'' (PStr ''No Organization'')))) (\<lambda>organization_name.
      andthen (andthen (py_get opencontrol ''metadata'' (PDict [])) (\<lambda>m.
               andthen (py_get m ''organization'' (PDict [])) (\<lambda>org.
               py_get org ''abbreviation'' organization_name))) (\<lambda>organization_abbrev.
      andthen (first12_dash organization_abbrev) (\<lambda>abbrev12.
      andthen (py_short_hash hexdigest organization_name) (\<lambda>organization_hash.
      let organization_id = abbrev12 @ organization_hash in
      andthen (first12_dash name) (\<lambda>name12.
      let project_id = name12 @ short_hash hexdigest fn in
      Inr (PDict
        [(''id'', PStr project_id),
         (''organization'', PDict
            [(''id'', PStr organization_id),
             (''name'', organization_name),
             (''abbreviation'', organization_abbrev)]),
         (''title'', name),
         (''path'', PStr project_dir),
         (''description'', description),
         (''url'', PStr (''/organizations/'' @ quote_plus organization_id
                          @ ''/projects/'' @ quote_plus project_id))]))))))))))"

section \<open>The component list (opencontrol.py, load\_project\_components)\<close>

text \<open>
  The loaders of components and of control implementations are generators.  The model
  returns the records a full iteration receives, in order, and the exception that ended
  the iteration, if one did.
\<close>

type_synonym yielded = "pyval list \<times> py_error option"

text \<open>\<^verbatim>\<open>os.path.join(a, b)\<close> on values: both must be strings.\<close>

fun py_path_join :: "pyval \<Rightarrow> pyval \<Rightarrow> py_error + string" where
  "py_path_join (PStr a) (PStr b) = Inr (path_join a b)"
| "py_path_join v w = Inl TypeError"

text \<open>One pass of the loop over the component paths: the record that is yielded.\<close>

definition component_record ::
  "(string \<Rightarrow> string) \<Rightarrow> files \<Rightarrow> pyval \<Rightarrow> pyval \<Rightarrow> py_error + pyval" where
  "component_record hexdigest fs project component_path =
     andthen (py_getitem project ''path'') (\<lambda>project_path.
     andthen (py_path_join project_path component_path) (\<lambda>dir.
     let fn2 = path_join dir ''component.yaml'' in
     andthen (read_versioned fs fn2 ''3.0.0'') (\<lambda>component.
     andthen (py_get component ''name'' PNone) (\<lambda>name0.
     let name = (if truthy name0 then name0
                 else PStr (dir_name (case component_path of PStr p \<Rightarrow> p | _ \<Rightarrow> []))) in
     andthen (first12_dash name) (\<lambda>name12.
     andthen (py_short_hash hexdigest component_path) (\<lambda>path_hash.
     let component_id = name12 @ path_hash in
     andthen (py_getitem project ''url'') (\<lambda>project_url.
     andthen (py_add_str project_url (''/components/'' @ quote_plus component_id)) (\<lambda>url.
     Inr (PDict
       [(''project'', project),
        (''id'', PStr component_id),
        (''path'', PStr dir),
        (''name'', name),
        (''url'', url)])))))))))"

fun components_loop ::
  "(string \<Rightarrow> string) \<Rightarrow> files \<Rightarrow> pyval \<Rightarrow> pyval list \<Rightarrow> yielded" where
  "components_loop hexdigest fs project [] = ([], None)"
| "components_loop hexdigest fs project (component_path # rest) =
     (case component_record hexdigest fs project component_path of
        Inl e \<Rightarrow> ([], Some e)
      | Inr component \<Rightarrow>
          (case components_loop hexdigest fs project rest of
             (components, err) \<Rightarrow> (component # components, err)))"

definition load_project_components :: "(string \<Rightarrow> string) \<Rightarrow> files \<Rightarrow> pyval \<Rightarrow> yielded" where
  "load_project_components hexdigest fs project =
     (case andthen (py_getitem project ''path'') (\<lambda>project_path.
           andthen (py_path_join project_path (PStr ''opencontrol.yaml'')) (\<lambda>fn1.
           andthen (read_versioned fs fn1 ''1.0.0'') (\<lambda>opencontrol.
           andthen (py_get opencontrol ''components'' (PList [])) py_iter))) of
        Inl e \<Rightarrow> ([], Some e)
      | Inr component_paths \<Rightarrow> components_loop hexdigest fs project component_paths)"

section \<open>The aggregator (opencontrol.py, load\_project\_component\_controls)\<close>





















section \<open>An example project\<close>

text \<open>The SHA-256 digests of the three strings that the example hashes, as
  \<^verbatim>\<open>hashlib\<close> gives them; for every other string the table holds 64 zeros, which is no
  digest and is not used.\<close>

definition example_hexdigest :: "string \<Rightarrow> string" where
  "example_hexdigest s =
     (if s = ''sys/opencontrol.yaml''
        then ''22ec7f229156fdbb0cad5060dcf676307e01207c0b7ab51284728084d1e8b424''
      else if s = ''No Organization''
        then ''7ac559f7e485c9ca7845006bef2ddf6839537770bde4e7f4b8f3f7f0a5987bc5''
      else if s = ''web''
        then ''4b5e57f6eb2f42b9039b3d1e13929295f231749c510cbe341cd68036d9af97e2''
      else replicate 64 (CHR ''0''))"

text \<open>A system file with a name, one component and no metadata, under the directory
  \<^verbatim>\<open>sys\<close>, and the same file with an older schema version.\<close>

definition example_system :: "string \<Rightarrow> pyval" where
  "example_system version = PDict
     [(''schema_version'', PStr version),
      (''name'', PStr ''Payroll System''),
      (''components'', PList [PStr ''web''])]"

definition example_project_files :: "string \<Rightarrow> files" where
  "example_project_files version =
     [''sys/opencontrol.yaml'' \<mapsto> example_system version,
      ''sys/web/component.yaml'' \<mapsto> example_component]"

text \<open>The project record that \<open>load_project_from_path\<close> makes of it.\<close>

definition example_project :: pyval where
  "example_project = PDict
     [(''id'', PStr ''Payroll Syst-22ec7f''),
      (''organization'', PDict
         [(''id'', PStr ''No Organizat-7ac559''),
          (''name'', PStr ''No Organization''),
          (''abbreviation'', PStr ''No Organization'')]),
      (''title'', PStr ''Payroll System''),
      (''path'', PStr ''sys''),
      (''description'', PNone),
      (''url'', PStr ''/organizations/No+Organizat-7ac559/projects/Payroll+Syst-22ec7f'')]"

definition example_web_component :: pyval where
  "example_web_component = PDict
     [(''project'', example_project),
      (''id'', PStr ''Web Server-4b5e57''),
      (''path'', PStr ''sys/web''),
      (''name'', PStr ''Web Server''),
      (''url'', PStr (''/organizations/No+Organizat-7ac559/projects/Payroll+Syst-22ec7f''
                       @ ''/components/Web+Server-4b5e57''))]"



text \<open>The metadata the aggregator builds for that control.\<close>

definition example_metadata :: pyval where
  "example_metadata = PDict
     [(''component'', example_web_component),
      (''standard'', PDict [(''id'', PStr ''NIST-800-53''), (''name'', PStr ''NIST SP 800-53'')]),
      (''family'', PDict
         [(''abbrev'', PStr ''AC''), (''name'', PStr ''Access Control''),
          (''sort_key'', PStr ''AC''), (''id'', PStr ''AC''), (''number'', PStr ''AC'')]),
      (''control'', PDict
         [(''id'', PStr ''AC-2''),
          (''sort_key'', PTuple [PStr ''NIST-800-53'', PTuple [PStr ''AC-'', PInt 2, PStr '''']]),
          (''number'', PStr ''AC-2''),
          (''name'', PStr ''Account Management''),
          (''url'', PStr (''/organizations/No+Organizat-7ac559/projects/Payroll+Syst-22ec7f''
                           @ ''/controls/NIST-800-53/AC-2'')),
          (''family'', PStr ''AC''),
          (''description'', PStr ''The organization manages accounts.'')]),
      (''source_file'', PStr ''sys/web/component.yaml'')]"




section \<open>Properties of the sort keys\<close>

lemma alternating_split_digits: "alternating (split_digits s)"
proof (induction s rule: split_digits.induct)
  case (1 s)
  let ?rest = "dropWhile (\<lambda>c. \<not> is_digit c) s"
  have pre: "list_all (\<lambda>c. \<not> is_digit c) (takeWhile (\<lambda>c. \<not> is_digit c) s)"
    by (auto simp: list_all_iff dest: set_takeWhileD)
  show ?case
  proof (cases "?rest = []")
    case True
    then show ?thesis using pre by (subst split_digits.simps) (simp add: Let_def)
  next
    case False
    then have "is_digit (hd ?rest)" using hd_dropWhile [of "\<lambda>c. \<not> is_digit c" s] by simp
    with False have ne: "takeWhile is_digit ?rest \<noteq> []" by (cases ?rest) simp_all
    have dg: "list_all is_digit (takeWhile is_digit ?rest)"
      by (auto simp: list_all_iff dest: set_takeWhileD)
    have "alternating (split_digits (dropWhile is_digit ?rest))"
      using "1.IH" [OF refl refl False] .
    with False pre ne dg show ?thesis
      by (subst split_digits.simps) (simp add: Let_def)
  qed
qed

lemma alternating_nth:
  "alternating ps \<Longrightarrow> i < length ps \<Longrightarrow>
     (if even i then list_all (\<lambda>c. \<not> is_digit c) (ps ! i)
      else ps ! i \<noteq> [] \<and> list_all is_digit (ps ! i))"
proof (induction ps arbitrary: i rule: alternating.induct)
  case 1
  then show ?case by simp
next
  case (2 p)
  then show ?case by simp
next
  case (3 p d rest)
  show ?case
  proof (cases i)
    case 0
    with "3.prems" show ?thesis by simp
  next
    case (Suc j)
    show ?thesis
    proof (cases j)
      case 0
      with Suc "3.prems" show ?thesis by simp
    next
      case (Suc k)
      with \<open>i = Suc j\<close> "3.prems" have "alternating rest" "k < length rest" by simp_all
      from "3.IH" [OF this] Suc \<open>i = Suc j\<close> show ?thesis by simp
    qed
  qed
qed

lemma digit_not_space: "is_digit c \<Longrightarrow> \<not> is_int_space c"
  by (auto simp: is_digit_def is_int_space_def)

lemma digit_not_sign: "is_digit c \<Longrightarrow> c \<noteq> CHR ''+'' \<and> c \<noteq> CHR ''-'' \<and> c \<noteq> CHR ''_''"
  by (auto simp: is_digit_def code_def)

lemma int_strip_digits: "list_all is_digit s \<Longrightarrow> int_strip s = s"
proof (cases s rule: rev_cases)
  case Nil
  then show ?thesis by (simp add: int_strip_def)
next
  case (snoc ys y)
  assume a: "list_all is_digit s"
  show ?thesis
  proof (cases s)
    case Nil
    then show ?thesis by (simp add: int_strip_def)
  next
    case (Cons x xs)
    with a have "\<not> is_int_space x" by (simp add: digit_not_space)
    with Cons have 1: "dropWhile is_int_space s = s" by simp
    from a snoc have "\<not> is_int_space y" by (simp add: digit_not_space)
    with snoc have 2: "dropWhile is_int_space (rev s) = rev s" by simp
    show ?thesis by (simp add: int_strip_def 1 2)
  qed
qed

lemma digits_ok_all: "s \<noteq> [] \<Longrightarrow> list_all is_digit s \<Longrightarrow> digits_ok s"
  by (induction s rule: digits_ok.induct) (auto dest: digit_not_sign)

lemma filter_digits: "list_all is_digit s \<Longrightarrow> filter (\<lambda>c. c \<noteq> CHR ''_'') s = s"
  by (induction s) (auto dest: digit_not_sign)

lemma py_int_digits:
  assumes "s \<noteq> []" "list_all is_digit s"
  shows "py_int s = (if length s \<le> max_str_digits then Some (dec_val s) else None)"
proof -
  obtain c cs where s: "s = c # cs" using assms(1) by (cases s) auto
  with assms(2) have "is_digit c" by simp
  then have "c \<noteq> CHR ''+''" "c \<noteq> CHR ''-''" by (auto dest: digit_not_sign)
  with s have sg: "(case s of [] \<Rightarrow> (1::int, []) | c # cs \<Rightarrow>
       if c = CHR ''+'' then (1, cs) else if c = CHR ''-'' then (- 1, cs) else (1, s)) = (1, s)"
    by simp
  show ?thesis
    unfolding py_int_def int_strip_digits [OF assms(2)] Let_def sg
    by (simp add: digits_ok_all [OF assms] filter_digits [OF assms(2)])
qed

lemma digits_ok_has_digit: "digits_ok s \<Longrightarrow> \<exists>c\<in>set s. is_digit c"
  by (induction s rule: digits_ok.induct) auto

lemma set_int_strip: "set (int_strip s) \<subseteq> set s"
proof -
  have "set (dropWhile is_int_space (rev (dropWhile is_int_space s)))
          \<subseteq> set (rev (dropWhile is_int_space s))"
    by (auto dest: set_dropWhileD)
  moreover have "set (dropWhile is_int_space s) \<subseteq> set s"
    by (auto dest: set_dropWhileD)
  ultimately show ?thesis by (auto simp: int_strip_def)
qed

lemma py_int_no_digit:
  assumes "list_all (\<lambda>c. \<not> is_digit c) s"
  shows "py_int s = None"
proof -
  have nd: "\<And>t. set t \<subseteq> set s \<Longrightarrow> \<not> digits_ok t"
    using assms digits_ok_has_digit by (fastforce simp: list_all_iff)
  have "set (int_strip s) \<subseteq> set s" by (rule set_int_strip)
  then show ?thesis
    unfolding py_int_def Let_def
    by (cases "int_strip s") (auto simp: nd split: if_splits)
qed

lemma intify_digits:
  "s \<noteq> [] \<Longrightarrow> list_all is_digit s \<Longrightarrow>
   intify s = (if length s \<le> max_str_digits then PInt (dec_val s) else PStr s)"
  by (simp add: intify_def py_int_digits)

lemma intify_no_digit: "list_all (\<lambda>c. \<not> is_digit c) s \<Longrightarrow> intify s = PStr s"
  by (simp add: intify_def py_int_no_digit)

lemma intify_scalar: "is_str (intify s) \<or> is_int (intify s)"
  by (cases "py_int s") (simp_all add: intify_def is_str_def is_int_def)

lemma scalar_key: "list_all (\<lambda>x. is_str x \<or> is_int x) (make_control_number_sort_key s)"
  by (simp add: make_control_number_sort_key_def list_all_iff intify_scalar)

lemma shaped_alternating:
  "alternating ps \<Longrightarrow> list_all (\<lambda>d. length d \<le> max_str_digits) (digit_runs ps) \<Longrightarrow>
   shaped True (map intify ps)"
  by (induction ps rule: alternating.induct)
     (simp_all add: intify_digits intify_no_digit is_str_def is_int_def)

lemma shaped_key: "runs_within_limit s \<Longrightarrow> shaped True (make_control_number_sort_key s)"
  unfolding make_control_number_sort_key_def runs_within_limit_def
  by (rule shaped_alternating) (rule alternating_split_digits)

lemma shaped_nth:
  "shaped b xs \<Longrightarrow> i < length xs \<Longrightarrow> (if even i = b then is_str (xs ! i) else is_int (xs ! i))"
proof (induction xs arbitrary: b i)
  case Nil
  then show ?case by simp
next
  case (Cons x xs)
  show ?case
  proof (cases i)
    case 0
    with Cons.prems show ?thesis by (cases b) simp_all
  next
    case (Suc j)
    with Cons.prems have "shaped (\<not> b) xs" "j < length xs" by simp_all
    from Cons.IH [OF this] Suc show ?thesis by (cases b) simp_all
  qed
qed

lemma py_eq_scalar_refl: "is_str x \<or> is_int x \<Longrightarrow> py_eq x x"
  by (cases x) (simp_all add: is_str_def is_int_def py_num_def)

lemma py_lt_shaped: "shaped b xs \<Longrightarrow> shaped b ys \<Longrightarrow> \<exists>r. py_lt_list xs ys = Inr r"
proof (induction xs arbitrary: b ys)
  case Nil
  then show ?case by auto
next
  case (Cons x xs)
  show ?case
  proof (cases ys)
    case Nil
    then show ?thesis by auto
  next
    case (Cons y ys')
    with Cons.prems have k: "(if b then is_str x \<and> is_str y else is_int x \<and> is_int y)"
      and r: "shaped (\<not> b) xs" "shaped (\<not> b) ys'" by (simp_all split: if_splits)
    from Cons.IH [OF r] obtain q where q: "py_lt_list xs ys' = Inr q" by blast
    from k have "\<exists>r. py_lt x y = Inr r"
      by (cases x; cases y) (simp_all add: is_str_def is_int_def py_num_def split: if_splits)
    with q Cons show ?thesis by auto
  qed
qed

lemma py_lt_prefix:
  "list_all (\<lambda>x. is_str x \<or> is_int x) xs \<Longrightarrow> t \<noteq> [] \<Longrightarrow> py_lt_list xs (xs @ t) = Inr True"
  by (induction xs) (auto simp: py_eq_scalar_refl)

lemma split_digits_no_digit:
  "list_all (\<lambda>c. \<not> is_digit c) s \<Longrightarrow> split_digits s = [s]"
  by (subst split_digits.simps) (simp add: Let_def list_all_iff)

lemma split_digits_one_run:
  assumes "list_all (\<lambda>c. \<not> is_digit c) pre" and "ds \<noteq> []" and "list_all is_digit ds"
  shows "split_digits (pre @ ds) = [pre, ds, []]"
proof -
  obtain d ds' where ds: "ds = d # ds'" using assms(2) by (cases ds) auto
  with assms(3) have d: "is_digit d" by simp
  have p: "\<And>c. c \<in> set pre \<Longrightarrow> \<not> is_digit c"
    using assms(1) by (simp add: list_all_iff)
  have t: "takeWhile (\<lambda>c. \<not> is_digit c) (pre @ ds) = pre"
    using p d ds by (simp add: takeWhile_append2)
  have r: "dropWhile (\<lambda>c. \<not> is_digit c) (pre @ ds) = ds"
    using p d ds by (simp add: dropWhile_append2)
  have a: "takeWhile is_digit ds = ds" "dropWhile is_digit ds = []"
    using assms(3) by (simp_all add: list_all_iff)
  have e: "split_digits [] = [Nil]"
    by (rule split_digits_no_digit) simp
  show ?thesis
    by (subst split_digits.simps) (simp add: Let_def t r a e assms(2))
qed

text \<open>
  Claim C10, as amended.  In every key made by \<open>make_control_number_sort_key\<close>, from a
  string or from \<^verbatim>\<open>None\<close>, the items at even positions are strings, the pieces without
  digits (which may be empty), and the items at odd positions come from the non-empty
  runs of digits: the integer value of a run of at most 4300 digits, and the run itself,
  a string, when it is longer, because \<^verbatim>\<open>int\<close> refuses it.  So two keys of strings whose
  runs of digits have at most 4300 digits each hold the same kind of item at every common
  position, and comparing them returns a truth value: it does not raise the TypeError of
  an integer compared with a string.
\<close>

theorem sort_key_kinds_within_limit:
  fixes s t :: "string option"
  defines "pieces \<equiv> split_digits (case s of None \<Rightarrow> [] | Some u \<Rightarrow> u)"
  shows "length (make_control_number_sort_key s) = length pieces
    \<and> (\<forall>i < length pieces.
          if even i
          then list_all (\<lambda>c. \<not> is_digit c) (pieces ! i)
               \<and> make_control_number_sort_key s ! i = PStr (pieces ! i)
          else pieces ! i \<noteq> [] \<and> list_all is_digit (pieces ! i)
               \<and> make_control_number_sort_key s ! i
                   = (if length (pieces ! i) \<le> max_str_digits then PInt (dec_val (pieces ! i))
                      else PStr (pieces ! i)))
    \<and> (runs_within_limit s \<and> runs_within_limit t \<longrightarrow>
         (\<forall>i. i < length (make_control_number_sort_key s)
              \<and> i < length (make_control_number_sort_key t)
           \<longrightarrow> is_int (make_control_number_sort_key s ! i) = is_int (make_control_number_sort_key t ! i)
             \<and> is_str (make_control_number_sort_key s ! i) = is_str (make_control_number_sort_key t ! i)
             \<and> is_int (make_control_number_sort_key s ! i) \<noteq> is_str (make_control_number_sort_key s ! i))
       \<and> (\<exists>r. py_lt (PTuple (make_control_number_sort_key s))
                     (PTuple (make_control_number_sort_key t)) = Inr r))"
proof -
  have len: "length (make_control_number_sort_key s) = length pieces"
    by (simp add: make_control_number_sort_key_def pieces_def)
  have alt: "alternating pieces"
    unfolding pieces_def by (rule alternating_split_digits)
  have key: "make_control_number_sort_key s = map intify pieces"
    by (simp add: make_control_number_sort_key_def pieces_def)
  have items: "if even i
          then list_all (\<lambda>c. \<not> is_digit c) (pieces ! i)
               \<and> make_control_number_sort_key s ! i = PStr (pieces ! i)
          else pieces ! i \<noteq> [] \<and> list_all is_digit (pieces ! i)
               \<and> make_control_number_sort_key s ! i
                   = (if length (pieces ! i) \<le> max_str_digits then PInt (dec_val (pieces ! i))
                      else PStr (pieces ! i))"
    if "i < length pieces" for i
    using alternating_nth [OF alt that] that
    by (simp add: key intify_digits intify_no_digit split: if_splits)
  have kinds: "is_str (make_control_number_sort_key u ! i) = even i
      \<and> is_int (make_control_number_sort_key u ! i) = odd i"
    if "runs_within_limit u" and "i < length (make_control_number_sort_key u)" for u i
    using shaped_nth [OF shaped_key [OF that(1)] that(2)]
    by (cases "even i") (auto simp: is_str_def is_int_def split: pyval.splits)
  have same: "(\<forall>i. i < length (make_control_number_sort_key s)
              \<and> i < length (make_control_number_sort_key t)
           \<longrightarrow> is_int (make_control_number_sort_key s ! i) = is_int (make_control_number_sort_key t ! i)
             \<and> is_str (make_control_number_sort_key s ! i) = is_str (make_control_number_sort_key t ! i)
             \<and> is_int (make_control_number_sort_key s ! i) \<noteq> is_str (make_control_number_sort_key s ! i))
       \<and> (\<exists>r. py_lt (PTuple (make_control_number_sort_key s))
                     (PTuple (make_control_number_sort_key t)) = Inr r)"
    if w: "runs_within_limit s \<and> runs_within_limit t"
  proof (intro conjI allI impI)
    fix i
    assume i: "i < length (make_control_number_sort_key s)
              \<and> i < length (make_control_number_sort_key t)"
    from kinds [of s i] kinds [of t i] w i
    show "is_int (make_control_number_sort_key s ! i) = is_int (make_control_number_sort_key t ! i)"
      and "is_str (make_control_number_sort_key s ! i) = is_str (make_control_number_sort_key t ! i)"
      and "is_int (make_control_number_sort_key s ! i) \<noteq> is_str (make_control_number_sort_key s ! i)"
      by simp_all
  next
    from w have "shaped True (make_control_number_sort_key s)"
      "shaped True (make_control_number_sort_key t)"
      by (simp_all add: shaped_key)
    from py_lt_shaped [OF this]
    show "\<exists>r. py_lt (PTuple (make_control_number_sort_key s))
                     (PTuple (make_control_number_sort_key t)) = Inr r"
      by simp
  qed
  from len items same show ?thesis by blast
qed

theorem sort_key_kinds_within_limit_witness:
  "runs_within_limit (Some ''AC-10'') \<and> runs_within_limit (Some ''7b'')
   \<and> make_control_number_sort_key (Some ''AC-10'') ! 1 = PInt (dec_val ''10'')
   \<and> is_int (make_control_number_sort_key (Some ''AC-10'') ! 1)
       = is_int (make_control_number_sort_key (Some ''7b'') ! 1)"
proof -
  have p: "split_digits ''AC-10'' = [''AC-'', ''10'', '''']"
    by code_simp
  have l: "length (make_control_number_sort_key (Some ''AC-10'')) = 3"
    "length (make_control_number_sort_key (Some ''7b'')) = 3"
    by code_simp+
  have w: "runs_within_limit (Some ''AC-10'')" "runs_within_limit (Some ''7b'')"
    by code_simp+
  have m: "length ''10'' \<le> max_str_digits"
    by (simp add: max_str_digits_def)
  from sort_key_kinds_within_limit [of "Some ''AC-10''" "Some ''7b''"] p l w m
  show ?thesis by (auto dest: spec [of _ 1])
qed

text \<open>
  Claim C10 as stated fails for a run of more than 4300 digits: the key of "x" followed
  by 4301 zeros holds that run as a string at position 1, where the key of "x2" holds
  the integer 2, and comparing the two keys raises TypeError.
\<close>

theorem sort_key_kinds_counterexample:
  "make_control_number_sort_key (Some (''x'' @ replicate 4301 (CHR ''0'')))
     = [PStr ''x'', PStr (replicate 4301 (CHR ''0'')), PStr '''']
   \<and> make_control_number_sort_key (Some ''x2'') = [PStr ''x'', PInt 2, PStr '''']
   \<and> py_lt (PTuple (make_control_number_sort_key (Some (''x'' @ replicate 4301 (CHR ''0'')))))
           (PTuple (make_control_number_sort_key (Some ''x2''))) = Inl TypeError"
proof -
  have z: "list_all is_digit (replicate 4301 (CHR ''0''))"
    by (simp add: list_all_iff is_digit_def code_def)
  have n: "replicate 4301 (CHR ''0'') \<noteq> []"
    by simp
  have x: "list_all (\<lambda>c. \<not> is_digit c) ''x''"
    by (simp add: is_digit_def code_def)
  have a: "make_control_number_sort_key (Some (''x'' @ replicate 4301 (CHR ''0'')))
     = [PStr ''x'', PStr (replicate 4301 (CHR ''0'')), PStr '''']"
    unfolding make_control_number_sort_key_def option.case split_digits_one_run [OF x n z]
    using intify_no_digit [OF x] intify_no_digit [of "''''"] intify_digits [OF n z]
    by (simp add: max_str_digits_def)
  have b: "make_control_number_sort_key (Some ''x2'') = [PStr ''x'', PInt 2, PStr '''']"
    by code_simp
  show ?thesis
    unfolding a b by (simp add: py_num_def)
qed

text \<open>
  Claim C4.  The key of "AC-2" compares strictly before the key of "AC-10"; the key of
  any string compares strictly before that key with any non-empty sequence of further
  items appended; and the key of \<^verbatim>\<open>None\<close> is the key of the empty string.
\<close>

theorem natural_sort_order:
  "py_lt (PTuple (make_control_number_sort_key (Some ''AC-2'')))
         (PTuple (make_control_number_sort_key (Some ''AC-10''))) = Inr True
   \<and> (t \<noteq> [] \<longrightarrow>
        py_lt (PTuple (make_control_number_sort_key s))
              (PTuple (make_control_number_sort_key s @ t)) = Inr True)
   \<and> make_control_number_sort_key None = make_control_number_sort_key (Some '''')"
proof (intro conjI impI)
  show "py_lt (PTuple (make_control_number_sort_key (Some ''AC-2'')))
         (PTuple (make_control_number_sort_key (Some ''AC-10''))) = Inr True"
    by code_simp
  show "py_lt (PTuple (make_control_number_sort_key s))
              (PTuple (make_control_number_sort_key s @ t)) = Inr True" if "t \<noteq> []"
    using py_lt_prefix [OF scalar_key that] by simp
  show "make_control_number_sort_key None = make_control_number_sort_key (Some '''')"
    by (simp add: make_control_number_sort_key_def)
qed

theorem natural_sort_order_witness:
  "[PStr ''a''] \<noteq> []
   \<and> py_lt (PTuple (make_control_number_sort_key (Some ''AC-2'')))
           (PTuple (make_control_number_sort_key (Some ''AC-2'') @ [PStr ''a''])) = Inr True"
  using natural_sort_order [of "[PStr ''a'']" "Some ''AC-2''"] by simp

section \<open>Properties of the updater\<close>

lemma andthen_Inr: "andthen m f = Inr y \<longleftrightarrow> (\<exists>x. m = Inr x \<and> f x = Inr y)"
  by (cases m) (simp_all add: andthen_def)

lemma andthen_simps [simp]: "andthen (Inr x) f = f x" "andthen (Inl e) f = Inl e"
  by (simp_all add: andthen_def)



lemma dict_set_keys_new: "map_of m k = None \<Longrightarrow> map fst (dict_set m k v) = map fst m @ [k]"
  by (induction m) (auto split: if_splits)















lemma example_update_a:
  "update_document (example_controlimpl ''AC-2'' (PStr ''a'') ''New text.'') example_component
     = Inr (example_component_with (PStr ''New text.'') (PStr ''Accounts expire.'')
              (PStr ''Roles are enforced.'') (PStr ''Defaults deny.''))"
  by code_simp

lemma update_returns_none:
  "update_component_control fs controlimpl = Inr (r, fs') \<Longrightarrow> r = PNone"
proof -
  assume a: "update_component_control fs controlimpl = Inr (r, fs')"
  then obtain sf where "py_getitem controlimpl ''source_file'' = Inr sf"
    and b: "(case sf of
       PStr path \<Rightarrow>
         (case fs path of
            None \<Rightarrow> Inl (FileNotFoundError path)
          | Some data \<Rightarrow>
              andthen (update_document controlimpl data) (\<lambda>data'.
              Inr (PNone, fs(path \<mapsto> data'))))
     | _ \<Rightarrow> Inl TypeError) = Inr (r, fs')"
    by (auto simp: update_component_control_def andthen_Inr)
  from b show ?thesis
    by (cases sf) (auto simp: andthen_Inr split: option.splits)
qed




text \<open>
  Claim C1.  A call with a triple that matches nothing leaves the document as it is and
  does not raise, but the caller is told nothing: the call returns \<^verbatim>\<open>None\<close>, the same
  value as a call that found its part and changed the file.  (The older update path,
  \<^verbatim>\<open>update_control\<close> in routes.py, returns "OK" or "NOTFOUND".)
\<close>

theorem update_reports_no_outcome:
  "update_component_control example_files (example_controlimpl ''AC-2'' (PStr ''c'') ''New text.'')
     = Inr (PNone, example_files)
   \<and> update_component_control example_files (example_controlimpl ''AC-2'' (PStr ''a'') ''New text.'')
     = Inr (PNone, example_files(''web/component.yaml'' \<mapsto>
              example_component_with (PStr ''New text.'') (PStr ''Accounts expire.'')
                (PStr ''Roles are enforced.'') (PStr ''Defaults deny.'')))"
proof -
  have c: "update_document (example_controlimpl ''AC-2'' (PStr ''c'') ''New text.'') example_component
     = Inr example_component"
    by code_simp
  have s: "py_getitem (example_controlimpl ''AC-2'' p t) ''source_file'' = Inr (PStr ''web/component.yaml'')"
    for p t by (simp add: example_controlimpl_def)
  have f: "example_files ''web/component.yaml'' = Some example_component"
    by (simp add: example_files_def)
  have "example_files(''web/component.yaml'' \<mapsto> example_component) = example_files"
    using f by (simp add: map_upd_triv)
  then show ?thesis
    by (simp add: update_component_control_def s f c example_update_a)
qed

text \<open>
  Claim C8.  \<open>update_component_control\<close> stores the narrative of the record as it is
  given: surrounding whitespace and whitespace before a line break stay, and a
  blank text is stored as a blank string.  \<open>clean_text\<close>, which the older update path
  applies before it stores a text, would give the trimmed text and \<^verbatim>\<open>None\<close>.
\<close>

theorem update_stores_text_as_given:
  "update_document
       (example_controlimpl ''AC-2'' (PStr ''a'') ('' New text.  '' @ [CHR 0x0A] @ ''  More.  ''))
       example_component
     = Inr (example_component_with (PStr ('' New text.  '' @ [CHR 0x0A] @ ''  More.  ''))
              (PStr ''Accounts expire.'') (PStr ''Roles are enforced.'') (PStr ''Defaults deny.''))
   \<and> clean_text ('' New text.  '' @ [CHR 0x0A] @ ''  More.  '')
       = PStr (''New text.'' @ [CHR 0x0A] @ ''  More.'')
   \<and> update_document (example_controlimpl ''AC-2'' (PStr ''a'') ''   '') example_component
     = Inr (example_component_with (PStr ''   '')
              (PStr ''Accounts expire.'') (PStr ''Roles are enforced.'') (PStr ''Defaults deny.''))
   \<and> clean_text ''   '' = PNone"
  by code_simp

section \<open>Properties of the control resolver\<close>

lemma concat_split_parts: "concat (split_parts s) = s"
proof (induction s rule: split_parts.induct)
  case (1 s)
  let ?rest = "dropWhile is_word s"
  show ?case
  proof (cases "?rest = []")
    case True
    then have "takeWhile is_word s = s"
      by (metis append_Nil2 takeWhile_dropWhile_id)
    with True show ?thesis by (subst split_parts.simps) (simp add: Let_def)
  next
    case False
    define sep where "sep = (if is_space (hd ?rest) then takeWhile is_space ?rest
                         else takeWhile (\<lambda>c. \<not> is_word c \<and> \<not> is_space c) ?rest)"
    have ih: "concat (split_parts (drop (length sep) ?rest)) = drop (length sep) ?rest"
      using "1.IH" [OF refl refl False] unfolding sep_def by simp
    have "sep = take (length sep) ?rest"
      unfolding sep_def by (simp add: takeWhile_eq_take [symmetric])
    then have "sep @ drop (length sep) ?rest = ?rest"
      by (metis append_take_drop_id)
    then have "takeWhile is_word s @ sep @ drop (length sep) ?rest = s"
      by simp
    with False ih show ?thesis
      by (subst split_parts.simps) (simp add: Let_def sep_def [symmetric])
  qed
qed

lemma split_parts_nonempty: "split_parts s \<noteq> []"
  by (subst split_parts.simps) (simp add: Let_def)

lemma backoff_found:
  assumes "i < n"
    and "map_of standard (concat (take (Suc i) parts)) \<noteq> None"
    and "\<forall>j. i < j \<and> j < n \<longrightarrow> map_of standard (concat (take (Suc j) parts)) = None"
  shows "backoff standard control_id parts n
           = found_control standard control_id (concat (take (Suc i) parts)) (concat (drop (Suc i) parts))"
  using assms
proof (induction n)
  case 0
  then show ?case by simp
next
  case (Suc k)
  show ?case
  proof (cases "k = i")
    case True
    with Suc.prems(2) show ?thesis by (simp add: Let_def)
  next
    case False
    with Suc.prems(1) have ik: "i < k" by simp
    with Suc.prems(3) have "map_of standard (concat (take (Suc k) parts)) = None" by simp
    moreover have "backoff standard control_id parts k
           = found_control standard control_id (concat (take (Suc i) parts)) (concat (drop (Suc i) parts))"
      using Suc.IH [OF ik Suc.prems(2)] Suc.prems(3) by simp
    ultimately show ?thesis by (simp add: Let_def)
  qed
qed

lemma backoff_none:
  "\<forall>j < n. map_of standard (concat (take (Suc j) parts)) = None \<Longrightarrow>
   backoff standard control_id parts n
     = Inr (PDict [(''id'', PStr control_id),
                   (''name'', PStr (''['' @ control_id @ '']'')),
                   (''description'', PNone)])"
  by (induction n) (simp_all add: Let_def)

lemma found_control_suffix:
  assumes "map_of standard prefix = Some (PDict entry)" and "map_of entry ''name'' = Some (PStr nm)"
    and "suffix \<noteq> []"
  shows "found_control standard control_id prefix suffix
     = Inr (PDict [(''id'', PStr (control_id @ suffix)),
                   (''name'', PStr (nm @ '' '' @ suffix)),
                   (''description'', PStr (''See '' @ prefix @ '', '' @ suffix @ ''.''))])"
  using assms by (simp add: found_control_def)

lemma found_control_exact:
  assumes "map_of standard prefix = Some (PDict entry)" and "map_of entry ''name'' = Some (PStr nm)"
    and "map_of entry ''description'' = Some d"
  shows "found_control standard control_id prefix []
     = Inr (PDict [(''id'', PStr control_id), (''name'', PStr nm), (''description'', d)])"
  using assms by (simp add: found_control_def)

text \<open>
  Claim C2, as amended.  The pieces of the split put together are the control id.  If a
  prefix of the pieces is a key of the catalog and no longer prefix is, and the rest of
  the id is not empty, the resolver returns a record whose name is the name of the catalog
  entry, one space, and the rest as it stands (so two spaces where the rest begins with
  one), and whose description is "See prefix, rest."; if the rest is empty, and so if the
  whole id is a key, the record has the id, the name of the entry and its description
  unchanged; if no prefix is a key, the record has the id, the name "[id]" and no
  description.  The catalog entry is a dictionary with a string under \<^verbatim>\<open>name\<close>.
\<close>

theorem resolve_control:
  fixes standard :: pydict and control_id :: string
  defines "parts \<equiv> split_parts control_id"
  shows "concat parts = control_id
    \<and> (\<forall>i prefix suffix entry nm.
          i < length parts \<and> prefix = concat (take (Suc i) parts) \<and> suffix = concat (drop (Suc i) parts)
          \<and> map_of standard prefix = Some (PDict entry) \<and> map_of entry ''name'' = Some (PStr nm)
          \<and> (\<forall>j. i < j \<and> j < length parts \<longrightarrow> map_of standard (concat (take (Suc j) parts)) = None)
        \<longrightarrow> prefix @ suffix = control_id
          \<and> (suffix \<noteq> [] \<longrightarrow>
                (\<exists>r. get_contol standard control_id = Inr r
                   \<and> py_getitem r ''name'' = Inr (PStr (nm @ '' '' @ suffix))
                   \<and> py_getitem r ''description''
                       = Inr (PStr (''See '' @ prefix @ '', '' @ suffix @ ''.''))))
          \<and> (suffix = [] \<longrightarrow>
                (\<forall>d. map_of entry ''description'' = Some d \<longrightarrow>
                   get_contol standard control_id
                     = Inr (PDict [(''id'', PStr control_id), (''name'', PStr nm),
                                   (''description'', d)]))))
    \<and> (\<forall>entry nm d.
          map_of standard control_id = Some (PDict entry) \<and> map_of entry ''name'' = Some (PStr nm)
          \<and> map_of entry ''description'' = Some d
        \<longrightarrow> get_contol standard control_id
              = Inr (PDict [(''id'', PStr control_id), (''name'', PStr nm), (''description'', d)]))
    \<and> ((\<forall>j < length parts. map_of standard (concat (take (Suc j) parts)) = None)
        \<longrightarrow> get_contol standard control_id
              = Inr (PDict [(''id'', PStr control_id),
                            (''name'', PStr (''['' @ control_id @ '']'')),
                            (''description'', PNone)]))"
proof -
  have whole: "concat parts = control_id"
    unfolding parts_def by (rule concat_split_parts)
  have g: "get_contol standard control_id = backoff standard control_id parts (length parts)"
    by (simp add: get_contol_def parts_def Let_def)
  have found: "prefix @ suffix = control_id
          \<and> (suffix \<noteq> [] \<longrightarrow>
                (\<exists>r. get_contol standard control_id = Inr r
                   \<and> py_getitem r ''name'' = Inr (PStr (nm @ '' '' @ suffix))
                   \<and> py_getitem r ''description''
                       = Inr (PStr (''See '' @ prefix @ '', '' @ suffix @ ''.''))))
          \<and> (suffix = [] \<longrightarrow>
                (\<forall>d. map_of entry ''description'' = Some d \<longrightarrow>
                   get_contol standard control_id
                     = Inr (PDict [(''id'', PStr control_id), (''name'', PStr nm),
                                   (''description'', d)])))"
    if h: "i < length parts \<and> prefix = concat (take (Suc i) parts) \<and> suffix = concat (drop (Suc i) parts)
          \<and> map_of standard prefix = Some (PDict entry) \<and> map_of entry ''name'' = Some (PStr nm)
          \<and> (\<forall>j. i < j \<and> j < length parts \<longrightarrow> map_of standard (concat (take (Suc j) parts)) = None)"
    for i prefix suffix entry nm
  proof -
    from h have i: "i < length parts" and p: "prefix = concat (take (Suc i) parts)"
      and s: "suffix = concat (drop (Suc i) parts)"
      and e: "map_of standard prefix = Some (PDict entry)" and n: "map_of entry ''name'' = Some (PStr nm)"
      and l: "\<forall>j. i < j \<and> j < length parts \<longrightarrow> map_of standard (concat (take (Suc j) parts)) = None"
      by blast+
    have "concat (take (Suc i) parts) @ concat (drop (Suc i) parts) = concat parts"
      by (metis append_take_drop_id concat_append)
    with p s whole have ps: "prefix @ suffix = control_id" by simp
    from e p have "map_of standard (concat (take (Suc i) parts)) \<noteq> None" by simp
    from backoff_found [OF i this l] g p s
    have r: "get_contol standard control_id = found_control standard control_id prefix suffix"
      by simp
    have a: "\<exists>r. get_contol standard control_id = Inr r
                   \<and> py_getitem r ''name'' = Inr (PStr (nm @ '' '' @ suffix))
                   \<and> py_getitem r ''description''
                       = Inr (PStr (''See '' @ prefix @ '', '' @ suffix @ ''.''))"
      if "suffix \<noteq> []"
      using r found_control_suffix [OF e n that, of control_id] by simp
    have b: "get_contol standard control_id
                     = Inr (PDict [(''id'', PStr control_id), (''name'', PStr nm),
                                   (''description'', d)])"
      if "suffix = []" "map_of entry ''description'' = Some d" for d
      using r that(1) found_control_exact [OF e n that(2), of control_id] by simp
    from ps a b show ?thesis by blast
  qed
  have exact: "get_contol standard control_id
              = Inr (PDict [(''id'', PStr control_id), (''name'', PStr nm), (''description'', d)])"
    if h: "map_of standard control_id = Some (PDict entry) \<and> map_of entry ''name'' = Some (PStr nm)
          \<and> map_of entry ''description'' = Some d" for entry nm d
  proof -
    have ne: "parts \<noteq> []" unfolding parts_def by (rule split_parts_nonempty)
    then obtain k where k: "length parts = Suc k" by (cases parts) auto
    then have t: "concat (take (Suc k) parts) = control_id" "concat (drop (Suc k) parts) = []"
      using whole by simp_all
    have "k < length parts \<and> control_id = concat (take (Suc k) parts) \<and> [] = concat (drop (Suc k) parts)
          \<and> map_of standard control_id = Some (PDict entry) \<and> map_of entry ''name'' = Some (PStr nm)
          \<and> (\<forall>j. k < j \<and> j < length parts \<longrightarrow> map_of standard (concat (take (Suc j) parts)) = None)"
      using k t h by simp
    from found [OF this] h show ?thesis by simp
  qed
  have none: "get_contol standard control_id
              = Inr (PDict [(''id'', PStr control_id),
                            (''name'', PStr (''['' @ control_id @ '']'')),
                            (''description'', PNone)])"
    if "\<forall>j < length parts. map_of standard (concat (take (Suc j) parts)) = None"
    using backoff_none [OF that] g by simp
  from whole found exact none show ?thesis by blast
qed

theorem resolve_control_witness:
  "py_getitem (PDict example_standard) ''AC-2'' = Inr (PDict [(''name'', PStr ''Account Management''),
                        (''description'', PStr ''The organization manages accounts.'')])
   \<and> (\<exists>r. get_contol example_standard ''AC-2 (H)'' = Inr r
         \<and> py_getitem r ''name'' = Inr (PStr ''Account Management  (H)'')
         \<and> py_getitem r ''description'' = Inr (PStr ''See AC-2,  (H).''))"
proof -
  have p: "split_parts ''AC-2 (H)'' = [''AC'', ''-'', ''2'', '' '', [], ''('', ''H'', '')'', []]"
    by code_simp
  have e: "map_of example_standard ''AC-2'' = Some (PDict [(''name'', PStr ''Account Management''),
                        (''description'', PStr ''The organization manages accounts.'')])"
    by (simp add: example_standard_def)
  have l: "\<forall>j. 2 < j \<and> j < length (split_parts ''AC-2 (H)'')
             \<longrightarrow> map_of example_standard (concat (take (Suc j) (split_parts ''AC-2 (H)''))) = None"
  proof (intro allI impI)
    fix j :: nat
    assume "2 < j \<and> j < length (split_parts ''AC-2 (H)'')"
    then have "j \<in> {3, 4, 5, 6, 7, 8}" by (auto simp: p)
    then show "map_of example_standard (concat (take (Suc j) (split_parts ''AC-2 (H)''))) = None"
      by (auto simp: p example_standard_def)
  qed
  have "2 < length (split_parts ''AC-2 (H)'') \<and> ''AC-2'' = concat (take (Suc 2) (split_parts ''AC-2 (H)''))
        \<and> '' (H)'' = concat (drop (Suc 2) (split_parts ''AC-2 (H)''))
        \<and> map_of example_standard ''AC-2'' = Some (PDict [(''name'', PStr ''Account Management''),
                        (''description'', PStr ''The organization manages accounts.'')])
        \<and> map_of [(''name'', PStr ''Account Management''),
                        (''description'', PStr ''The organization manages accounts.'')] ''name''
            = Some (PStr ''Account Management'')
        \<and> (\<forall>j. 2 < j \<and> j < length (split_parts ''AC-2 (H)'')
             \<longrightarrow> map_of example_standard (concat (take (Suc j) (split_parts ''AC-2 (H)''))) = None)"
    using l e by (simp add: p)
  with resolve_control [of "''AC-2 (H)''" example_standard]
  have "\<exists>r. get_contol example_standard ''AC-2 (H)'' = Inr r
         \<and> py_getitem r ''name'' = Inr (PStr (''Account Management'' @ '' '' @ '' (H)''))
         \<and> py_getitem r ''description'' = Inr (PStr (''See '' @ ''AC-2'' @ '', '' @ '' (H)'' @ ''.''))"
    by blast
  then show ?thesis using e by simp
qed

text \<open>
  Claim C2 as stated fails on its own example: for "AC-2 (H)" the name has two spaces
  before "(H)", and the id is the input followed by the rest once more.
\<close>

theorem resolve_control_counterexample:
  "get_contol example_standard ''AC-2 (H)''
     = Inr (PDict [(''id'', PStr ''AC-2 (H) (H)''),
                   (''name'', PStr ''Account Management  (H)''),
                   (''description'', PStr ''See AC-2,  (H).'')])
   \<and> ''Account Management  (H)'' \<noteq> ''Account Management (H)''
   \<and> ''AC-2 (H) (H)'' \<noteq> ''AC-2 (H)''"
  by code_simp

section \<open>Properties of the loaders\<close>

lemma py_eq_str: "py_eq v (PStr s) \<longleftrightarrow> v = PStr s"
  by (cases v) (auto simp: py_num_def split: pyval.splits)

lemma read_versioned_mismatch:
  assumes "fs fn = Some (PDict manifest)" and "map_of manifest ''schema_version'' \<noteq> Some (PStr version)"
  shows "read_versioned fs fn version
     = Inl (ValueError fn (case map_of manifest ''schema_version'' of None \<Rightarrow> PNone | Some v \<Rightarrow> v))"
  using assms by (auto simp: read_versioned_def py_eq_str split: option.splits)

text \<open>
  Claim C6.  If the system file of a project is a dictionary whose \<^verbatim>\<open>schema_version\<close> is
  not the string "1.0.0" (another value, or none), \<open>load_project_from_path\<close> raises
  ValueError, with the name of the file and the version found, and returns no
  project record; the loader of the project's components, which reads the same file,
  yields no component before it raises the same error.
\<close>

theorem schema_gate:
  assumes "fs (path_join project_dir ''opencontrol.yaml'') = Some (PDict manifest)"
    and "map_of manifest ''schema_version'' \<noteq> Some (PStr ''1.0.0'')"
  shows "load_project_from_path hexdigest fs project_dir
           = Inl (ValueError (path_join project_dir ''opencontrol.yaml'')
                    (case map_of manifest ''schema_version'' of None \<Rightarrow> PNone | Some v \<Rightarrow> v))
    \<and> (py_getitem project ''path'' = Inr (PStr project_dir) \<longrightarrow>
         load_project_components hexdigest fs project
           = ([], Some (ValueError (path_join project_dir ''opencontrol.yaml'')
                    (case map_of manifest ''schema_version'' of None \<Rightarrow> PNone | Some v \<Rightarrow> v))))"
proof -
  note r = read_versioned_mismatch [where fs = fs and fn = "path_join project_dir ''opencontrol.yaml''", OF assms]
  have "load_project_from_path hexdigest fs project_dir
           = Inl (ValueError (path_join project_dir ''opencontrol.yaml'')
                    (case map_of manifest ''schema_version'' of None \<Rightarrow> PNone | Some v \<Rightarrow> v))"
    by (simp add: load_project_from_path_def Let_def r)
  moreover have "load_project_components hexdigest fs project
           = ([], Some (ValueError (path_join project_dir ''opencontrol.yaml'')
                    (case map_of manifest ''schema_version'' of None \<Rightarrow> PNone | Some v \<Rightarrow> v)))"
    if "py_getitem project ''path'' = Inr (PStr project_dir)"
    by (simp add: load_project_components_def that r)
  ultimately show ?thesis by blast
qed

theorem schema_gate_witness:
  "example_project_files ''0.9.0'' (path_join ''sys'' ''opencontrol.yaml'')
      = Some (PDict [(''schema_version'', PStr ''0.9.0''),
                     (''name'', PStr ''Payroll System''),
                     (''components'', PList [PStr ''web''])])
   \<and> load_project_from_path example_hexdigest (example_project_files ''0.9.0'') ''sys''
      = Inl (ValueError ''sys/opencontrol.yaml'' (PStr ''0.9.0''))
   \<and> load_project_components example_hexdigest (example_project_files ''0.9.0'') example_project
      = ([], Some (ValueError ''sys/opencontrol.yaml'' (PStr ''0.9.0'')))"
proof -
  have f: "example_project_files ''0.9.0'' (path_join ''sys'' ''opencontrol.yaml'')
      = Some (PDict [(''schema_version'', PStr ''0.9.0''),
                     (''name'', PStr ''Payroll System''),
                     (''components'', PList [PStr ''web''])])"
    by (simp add: example_project_files_def example_system_def path_join_def)
  have v: "map_of [(''schema_version'', PStr ''0.9.0''),
                     (''name'', PStr ''Payroll System''),
                     (''components'', PList [PStr ''web''])] ''schema_version'' \<noteq> Some (PStr ''1.0.0'')"
    by simp
  have p: "py_getitem example_project ''path'' = Inr (PStr ''sys'')"
    by (simp add: example_project_def)
  have j: "path_join ''sys'' ''opencontrol.yaml'' = ''sys/opencontrol.yaml''"
    by (simp add: path_join_def)
  from schema_gate [where fs = "example_project_files ''0.9.0''" and project_dir = "''sys''"
      and hexdigest = example_hexdigest and project = example_project, OF f v] p f
  show ?thesis by (simp add: j)
qed

lemma andthenE:
  assumes "andthen m f = Inr y"
  obtains x where "m = Inr x" and "f x = Inr y"
  using assms by (cases m) (simp_all add: andthen_def)

lemma first12_dash_Inr: "first12_dash v = Inr t \<longleftrightarrow> (\<exists>name. v = PStr name \<and> t = take 12 name @ ''-'')"
  by (cases v) auto

lemma py_short_hash_Inr:
  "py_short_hash hexdigest v = Inr h \<longleftrightarrow> (\<exists>s. v = PStr s \<and> h = take 6 (hexdigest s))"
  by (cases v) (auto simp: short_hash_def)

lemma load_project_shape:
  assumes "load_project_from_path hexdigest fs project_dir = Inr project"
  shows "\<exists>title abbrev org_name description.
     project = PDict
        [(''id'', PStr (take 12 title @ ''-''
                         @ take 6 (hexdigest (path_join project_dir ''opencontrol.yaml'')))),
         (''organization'', PDict
            [(''id'', PStr (take 12 abbrev @ ''-'' @ take 6 (hexdigest org_name))),
             (''name'', PStr org_name),
             (''abbreviation'', PStr abbrev)]),
         (''title'', PStr title),
         (''path'', PStr project_dir),
         (''description'', description),
         (''url'', PStr (''/organizations/''
                          @ quote_plus (take 12 abbrev @ ''-'' @ take 6 (hexdigest org_name))
                          @ ''/projects/''
                          @ quote_plus (take 12 title @ ''-''
                              @ take 6 (hexdigest (path_join project_dir ''opencontrol.yaml'')))))]"
proof -
  let ?fn = "path_join project_dir ''opencontrol.yaml''"
  from assms obtain opencontrol name0 description organization_name organization_abbrev
      abbrev12 organization_hash name12 where
    a: "first12_dash organization_abbrev = Inr abbrev12" and
    h: "py_short_hash hexdigest organization_name = Inr organization_hash" and
    n: "first12_dash (if truthy name0 then name0 else PStr (dir_name project_dir)) = Inr name12" and
    p: "project = PDict
        [(''id'', PStr (name12 @ short_hash hexdigest ?fn)),
         (''organization'', PDict
            [(''id'', PStr (abbrev12 @ organization_hash)),
             (''name'', organization_name),
             (''abbreviation'', organization_abbrev)]),
         (''title'', (if truthy name0 then name0 else PStr (dir_name project_dir))),
         (''path'', PStr project_dir),
         (''description'', description),
         (''url'', PStr (''/organizations/'' @ quote_plus (abbrev12 @ organization_hash)
                          @ ''/projects/'' @ quote_plus (name12 @ short_hash hexdigest ?fn)))]"
    unfolding load_project_from_path_def Let_def
    by (elim andthenE) (simp, blast)
  from a obtain abbrev where ab: "organization_abbrev = PStr abbrev" "abbrev12 = take 12 abbrev @ ''-''"
    by (auto simp: first12_dash_Inr)
  from h obtain org_name where on: "organization_name = PStr org_name"
    "organization_hash = take 6 (hexdigest org_name)"
    by (auto simp: py_short_hash_Inr)
  from n obtain title where ti: "(if truthy name0 then name0 else PStr (dir_name project_dir)) = PStr title"
    "name12 = take 12 title @ ''-''"
    by (auto simp: first12_dash_Inr)
  show ?thesis
    unfolding p ab on ti short_hash_def by (simp only: append_assoc) blast
qed

lemma component_record_shape:
  assumes "component_record hexdigest fs project (PStr component_path) = Inr component"
  shows "\<exists>name. py_getitem component ''name'' = Inr (PStr name)
     \<and> py_getitem component ''id''
         = Inr (PStr (take 12 name @ ''-'' @ short_hash hexdigest component_path))"
proof -
  from assms obtain name0 name12 path_hash dir url where
    n: "first12_dash (if truthy name0 then name0 else PStr (dir_name component_path)) = Inr name12" and
    h: "py_short_hash hexdigest (PStr component_path) = Inr path_hash" and
    c: "component = PDict
       [(''project'', project),
        (''id'', PStr (name12 @ path_hash)),
        (''path'', PStr dir),
        (''name'', (if truthy name0 then name0 else PStr (dir_name component_path))),
        (''url'', url)]"
    unfolding component_record_def Let_def
    apply (elim andthenE)
    apply (simp only: pyval.case sum.inject)
    apply blast
    done
  from n obtain name where ti: "(if truthy name0 then name0 else PStr (dir_name component_path)) = PStr name"
    "name12 = take 12 name @ ''-''"
    by (auto simp: first12_dash_Inr)
  from h have "path_hash = short_hash hexdigest component_path" by simp
  with c ti show ?thesis by simp
qed

lemma short_hash_hex:
  assumes "is_hexdigest hexdigest"
  shows "length (short_hash hexdigest s) = 6" and "list_all is_hex_digit (short_hash hexdigest s)"
proof -
  from assms have l: "length (hexdigest s) = 64" and a: "list_all is_hex_digit (hexdigest s)"
    by (simp_all add: is_hexdigest_def)
  from l show "length (short_hash hexdigest s) = 6" by (simp add: short_hash_def)
  from a show "list_all is_hex_digit (short_hash hexdigest s)"
    by (auto simp: short_hash_def list_all_iff dest: in_set_takeD)
qed

lemma example_hexdigest_ok: "is_hexdigest example_hexdigest"
  unfolding is_hexdigest_def example_hexdigest_def is_hex_digit_def
  by (intro allI) (simp add: list_all_iff)

lemma example_load: "load_project_from_path example_hexdigest (example_project_files ''1.0.0'') ''sys''
     = Inr example_project"
  by code_simp

lemma example_components: "load_project_components example_hexdigest (example_project_files ''1.0.0'') example_project
     = ([example_web_component], None)"
  by code_simp

text \<open>
  Claim C9.  In every project record that \<open>load_project_from_path\<close> returns, the id is
  the first 12 characters of the title, a hyphen, and the short hash of the path of the
  system file; the id of the organization is the first 12 characters of its abbreviation,
  a hyphen, and the short hash of its name; the id of a component is made in the same way
  of its name and its path.  The short hash is the first 6 characters of the hexadecimal
  digest, 6 hexadecimal digits.  The id is a function of the title and the path alone:
  two loads of the same directory that read the same title give the same id, whatever else
  the files hold.
\<close>

theorem identifier_shape:
  assumes "is_hexdigest hexdigest"
    and "load_project_from_path hexdigest fs project_dir = Inr project"
  shows "(\<exists>title abbrev org_name organization.
            py_getitem project ''title'' = Inr (PStr title)
          \<and> py_getitem project ''id''
              = Inr (PStr (take 12 title @ ''-''
                      @ short_hash hexdigest (path_join project_dir ''opencontrol.yaml'')))
          \<and> py_getitem project ''organization'' = Inr organization
          \<and> py_getitem organization ''abbreviation'' = Inr (PStr abbrev)
          \<and> py_getitem organization ''name'' = Inr (PStr org_name)
          \<and> py_getitem organization ''id''
              = Inr (PStr (take 12 abbrev @ ''-'' @ short_hash hexdigest org_name)))
    \<and> (\<forall>s. short_hash hexdigest s = take 6 (hexdigest s)
           \<and> length (short_hash hexdigest s) = 6
           \<and> list_all is_hex_digit (short_hash hexdigest s))
    \<and> (\<forall>fs' project'.
          load_project_from_path hexdigest fs' project_dir = Inr project'
          \<and> py_getitem project' ''title'' = py_getitem project ''title''
          \<longrightarrow> py_getitem project' ''id'' = py_getitem project ''id'')
    \<and> (\<forall>component_path component.
          component_record hexdigest fs project (PStr component_path) = Inr component
          \<longrightarrow> (\<exists>name. py_getitem component ''name'' = Inr (PStr name)
                 \<and> py_getitem component ''id''
                     = Inr (PStr (take 12 name @ ''-'' @ short_hash hexdigest component_path))))"
proof -
  from load_project_shape [OF assms(2)] obtain title abbrev org_name description where
    p: "project = PDict
        [(''id'', PStr (take 12 title @ ''-''
                         @ take 6 (hexdigest (path_join project_dir ''opencontrol.yaml'')))),
         (''organization'', PDict
            [(''id'', PStr (take 12 abbrev @ ''-'' @ take 6 (hexdigest org_name))),
             (''name'', PStr org_name),
             (''abbreviation'', PStr abbrev)]),
         (''title'', PStr title),
         (''path'', PStr project_dir),
         (''description'', description),
         (''url'', PStr (''/organizations/''
                          @ quote_plus (take 12 abbrev @ ''-'' @ take 6 (hexdigest org_name))
                          @ ''/projects/''
                          @ quote_plus (take 12 title @ ''-''
                              @ take 6 (hexdigest (path_join project_dir ''opencontrol.yaml'')))))]"
    by blast
  have one: "\<exists>title abbrev org_name organization.
            py_getitem project ''title'' = Inr (PStr title)
          \<and> py_getitem project ''id''
              = Inr (PStr (take 12 title @ ''-''
                      @ short_hash hexdigest (path_join project_dir ''opencontrol.yaml'')))
          \<and> py_getitem project ''organization'' = Inr organization
          \<and> py_getitem organization ''abbreviation'' = Inr (PStr abbrev)
          \<and> py_getitem organization ''name'' = Inr (PStr org_name)
          \<and> py_getitem organization ''id''
              = Inr (PStr (take 12 abbrev @ ''-'' @ short_hash hexdigest org_name))"
    unfolding p by (simp add: short_hash_def)
  have two: "short_hash hexdigest s = take 6 (hexdigest s)
           \<and> length (short_hash hexdigest s) = 6
           \<and> list_all is_hex_digit (short_hash hexdigest s)" for s
    using short_hash_hex [OF assms(1), of s] by (simp add: short_hash_def)
  have three: "py_getitem project' ''id'' = py_getitem project ''id''"
    if "load_project_from_path hexdigest fs' project_dir = Inr project'
          \<and> py_getitem project' ''title'' = py_getitem project ''title''" for fs' project'
  proof -
    from that have l: "load_project_from_path hexdigest fs' project_dir = Inr project'"
      and t: "py_getitem project' ''title'' = py_getitem project ''title''" by blast+
    from load_project_shape [OF l] obtain title' abbrev' org_name' description' where
      p': "project' = PDict
        [(''id'', PStr (take 12 title' @ ''-''
                         @ take 6 (hexdigest (path_join project_dir ''opencontrol.yaml'')))),
         (''organization'', PDict
            [(''id'', PStr (take 12 abbrev' @ ''-'' @ take 6 (hexdigest org_name'))),
             (''name'', PStr org_name'),
             (''abbreviation'', PStr abbrev')]),
         (''title'', PStr title'),
         (''path'', PStr project_dir),
         (''description'', description'),
         (''url'', PStr (''/organizations/''
                          @ quote_plus (take 12 abbrev' @ ''-'' @ take 6 (hexdigest org_name'))
                          @ ''/projects/''
                          @ quote_plus (take 12 title' @ ''-''
                              @ take 6 (hexdigest (path_join project_dir ''opencontrol.yaml'')))))]"
      by blast
    from t have "title' = title" unfolding p p' by simp
    then show ?thesis unfolding p p' by simp
  qed
  have four: "\<exists>name. py_getitem component ''name'' = Inr (PStr name)
                 \<and> py_getitem component ''id''
                     = Inr (PStr (take 12 name @ ''-'' @ short_hash hexdigest component_path))"
    if "component_record hexdigest fs project (PStr component_path) = Inr component"
    for component_path component
    by (rule component_record_shape [OF that])
  from one two three four show ?thesis by blast
qed

theorem identifier_shape_witness:
  "is_hexdigest example_hexdigest
   \<and> load_project_from_path example_hexdigest (example_project_files ''1.0.0'') ''sys''
       = Inr example_project
   \<and> py_getitem example_project ''id''
       = Inr (PStr (take 12 ''Payroll System'' @ ''-''
               @ short_hash example_hexdigest (path_join ''sys'' ''opencontrol.yaml'')))
   \<and> length (short_hash example_hexdigest ''sys/opencontrol.yaml'') = 6"
proof -
  have t: "py_getitem example_project ''title'' = Inr (PStr ''Payroll System'')"
    by (simp add: example_project_def)
  from identifier_shape [OF example_hexdigest_ok example_load]
  obtain title where a: "py_getitem example_project ''title'' = Inr (PStr title)"
    and b: "py_getitem example_project ''id''
       = Inr (PStr (take 12 title @ ''-''
               @ short_hash example_hexdigest (path_join ''sys'' ''opencontrol.yaml'')))"
    and c: "\<forall>s. short_hash example_hexdigest s = take 6 (example_hexdigest s)
           \<and> length (short_hash example_hexdigest s) = 6
           \<and> list_all is_hex_digit (short_hash example_hexdigest s)"
    by blast
  from a t have "title = ''Payroll System''" by simp
  with b have "py_getitem example_project ''id''
       = Inr (PStr (take 12 ''Payroll System'' @ ''-''
               @ short_hash example_hexdigest (path_join ''sys'' ''opencontrol.yaml'')))"
    by blast
  moreover from c have "length (short_hash example_hexdigest ''sys/opencontrol.yaml'') = 6"
    by blast
  ultimately show ?thesis using example_hexdigest_ok example_load by blast
qed

lemma example_ids_not_url_safe: "\<not> url_safe ''Payroll Syst-22ec7f''" "\<not> url_safe ''No Organizat-7ac559''"
  "\<not> url_safe ''Web Server-4b5e57''"
  by code_simp+

text \<open>
  Claim C3.  The identifiers keep the first 12 characters of a name as they are.  For the
  example project, with the title "Payroll System", no organization (so the name
  "No Organization") and the component "Web Server", all three identifiers hold a space,
  which is not a letter, a digit or the hyphen.
\<close>

theorem identifiers_not_url_safe:
  "load_project_from_path example_hexdigest (example_project_files ''1.0.0'') ''sys''
     = Inr example_project
   \<and> py_getitem example_project ''id'' = Inr (PStr ''Payroll Syst-22ec7f'')
   \<and> \<not> url_safe ''Payroll Syst-22ec7f''
   \<and> andthen (py_getitem example_project ''organization'') (\<lambda>organization.
        py_getitem organization ''id'') = Inr (PStr ''No Organizat-7ac559'')
   \<and> \<not> url_safe ''No Organizat-7ac559''
   \<and> load_project_components example_hexdigest (example_project_files ''1.0.0'') example_project
     = ([example_web_component], None)
   \<and> py_getitem example_web_component ''id'' = Inr (PStr ''Web Server-4b5e57'')
   \<and> \<not> url_safe ''Web Server-4b5e57''"
  using example_load example_components example_ids_not_url_safe
  by (simp add: example_project_def example_web_component_def)

section \<open>Properties of the aggregator\<close>























end
